theory Spec2Isabelle
  imports Main
begin

section \<open>The syntax tree\<close>

text \<open>
  The rule \<^verbatim>\<open>array-index-check-undefined\<close> inspects a TSESTree syntax tree through the
  \<^verbatim>\<open>type\<close> tag of each node, its fields and its \<^verbatim>\<open>parent\<close> pointer. One datatype holds
  the node kinds the rule looks at; every other kind is an \<open>OtherNode\<close> with its type name
  and its children.

  A literal carries its \<^verbatim>\<open>value\<close>. The value of a numeric literal is named by the string
  that JavaScript's \<^verbatim>\<open>String\<close> gives it (\<^verbatim>\<open>0\<close> for the key of \<^verbatim>\<open>arr[0]\<close>, \<^verbatim>\<open>1e+21\<close> for
  \<^verbatim>\<open>1e21\<close>): the conversion is one-to-one on the values a numeric literal can have, so
  two numeric literals have the same value exactly when they carry the same string. A
  regular-expression literal has a \<^verbatim>\<open>RegExp\<close> value, named by its \<^verbatim>\<open>String\<close> as well,
  or the value \<^verbatim>\<open>null\<close> when the runtime cannot compile the pattern; a bigint literal
  has its value or, without runtime support, \<^verbatim>\<open>null\<close>.
\<close>

datatype literal_value =
    NumberLit string
  | StringLit string
  | BooleanLit bool
  | NullLit
  | RegExpLit "string option"
  | BigIntLit "string option"

text \<open>\<^verbatim>\<open>value === null\<close>, for the value of a literal.\<close>

definition value_is_null :: "literal_value \<Rightarrow> bool" where
  "value_is_null v =
     (case v of
        NullLit \<Rightarrow> True
      | RegExpLit r \<Rightarrow> r = None
      | BigIntLit b \<Rightarrow> b = None
      | _ \<Rightarrow> False)"

datatype node =
    Program "node list"
  | BlockStatement "node list"
  | ExpressionStatement node
  | IfStatement node node "node option"
  | ForStatement "node option" "node option" "node option" node
  | ReturnStatement "node option"
  | ThrowStatement node
  | VariableDeclaration "node list"
  | VariableDeclarator node "node option"
  | Identifier string
  | Literal literal_value
  | MemberExpression node node bool bool
  | CallExpression node "node list" bool
  | BinaryExpression string node node
  | LogicalExpression string node node
  | UnaryExpression string node
  | ConditionalExpression node node node
  | AssignmentExpression string node node
  | ChainExpression node
  | OtherNode string "node list"

text \<open>
  The fields are, in the order of the constructor arguments:
  \<open>IfStatement test consequent alternate\<close>, \<open>ForStatement init test update body\<close>,
  \<open>VariableDeclarator id init\<close>, \<open>MemberExpression object property computed optional\<close>,
  \<open>CallExpression callee arguments optional\<close>, \<open>BinaryExpression operator left right\<close>
  (the same for \<open>LogicalExpression\<close> and \<open>AssignmentExpression\<close>),
  \<open>UnaryExpression operator argument\<close>, \<open>ConditionalExpression test consequent alternate\<close>.
\<close>

subsection \<open>Node references and parent pointers\<close>

text \<open>
  The source compares nodes by reference (\<^verbatim>\<open>parent.object === node\<close>) and walks
  \<^verbatim>\<open>node.parent\<close>. A reference to a node is the path from the root of the tree to the
  node, stored innermost field first, so that the parent of \<open>f # p\<close> is \<open>p\<close> and the
  root \<open>[]\<close> has no parent. Two references are the same node exactly when the paths are
  equal.
\<close>

datatype field =
    F_body nat
  | F_expression
  | F_test
  | F_consequent
  | F_alternate
  | F_init
  | F_update
  | F_argument
  | F_declarations nat
  | F_id
  | F_object
  | F_property
  | F_callee
  | F_arguments nat
  | F_left
  | F_right
  | F_children nat

type_synonym ref = "field list"

fun nth_opt :: "'a list \<Rightarrow> nat \<Rightarrow> 'a option" where
  "nth_opt [] i = None"
| "nth_opt (x # xs) 0 = Some x"
| "nth_opt (x # xs) (Suc i) = nth_opt xs i"

definition child :: "node \<Rightarrow> field \<Rightarrow> node option" where
  "child n f =
     (case n of
        Program body \<Rightarrow> (case f of F_body i \<Rightarrow> nth_opt body i | _ \<Rightarrow> None)
      | BlockStatement body \<Rightarrow> (case f of F_body i \<Rightarrow> nth_opt body i | _ \<Rightarrow> None)
      | ExpressionStatement e \<Rightarrow> (case f of F_expression \<Rightarrow> Some e | _ \<Rightarrow> None)
      | IfStatement t c a \<Rightarrow>
          (case f of F_test \<Rightarrow> Some t | F_consequent \<Rightarrow> Some c | F_alternate \<Rightarrow> a
           | _ \<Rightarrow> None)
      | ForStatement i t u b \<Rightarrow>
          (case f of F_init \<Rightarrow> i | F_test \<Rightarrow> t | F_update \<Rightarrow> u | F_body j \<Rightarrow> nth_opt [b] j
           | _ \<Rightarrow> None)
      | ReturnStatement a \<Rightarrow> (case f of F_argument \<Rightarrow> a | _ \<Rightarrow> None)
      | ThrowStatement a \<Rightarrow> (case f of F_argument \<Rightarrow> Some a | _ \<Rightarrow> None)
      | VariableDeclaration ds \<Rightarrow> (case f of F_declarations i \<Rightarrow> nth_opt ds i | _ \<Rightarrow> None)
      | VariableDeclarator i ini \<Rightarrow> (case f of F_id \<Rightarrow> Some i | F_init \<Rightarrow> ini | _ \<Rightarrow> None)
      | Identifier name \<Rightarrow> None
      | Literal v \<Rightarrow> None
      | MemberExpression obj prop computed optional \<Rightarrow>
          (case f of F_object \<Rightarrow> Some obj | F_property \<Rightarrow> Some prop | _ \<Rightarrow> None)
      | CallExpression callee args optional \<Rightarrow>
          (case f of F_callee \<Rightarrow> Some callee | F_arguments i \<Rightarrow> nth_opt args i | _ \<Rightarrow> None)
      | BinaryExpression operator l r \<Rightarrow>
          (case f of F_left \<Rightarrow> Some l | F_right \<Rightarrow> Some r | _ \<Rightarrow> None)
      | LogicalExpression operator l r \<Rightarrow>
          (case f of F_left \<Rightarrow> Some l | F_right \<Rightarrow> Some r | _ \<Rightarrow> None)
      | UnaryExpression operator a \<Rightarrow> (case f of F_argument \<Rightarrow> Some a | _ \<Rightarrow> None)
      | ConditionalExpression t c a \<Rightarrow>
          (case f of F_test \<Rightarrow> Some t | F_consequent \<Rightarrow> Some c | F_alternate \<Rightarrow> Some a
           | _ \<Rightarrow> None)
      | AssignmentExpression operator l r \<Rightarrow>
          (case f of F_left \<Rightarrow> Some l | F_right \<Rightarrow> Some r | _ \<Rightarrow> None)
      | ChainExpression e \<Rightarrow> (case f of F_expression \<Rightarrow> Some e | _ \<Rightarrow> None)
      | OtherNode ty cs \<Rightarrow> (case f of F_children i \<Rightarrow> nth_opt cs i | _ \<Rightarrow> None))"

fun node_at :: "node \<Rightarrow> field list \<Rightarrow> node option" where
  "node_at n [] = Some n"
| "node_at n (f # fs) = (case child n f of None \<Rightarrow> None | Some c \<Rightarrow> node_at c fs)"

definition get :: "node \<Rightarrow> ref \<Rightarrow> node option" where
  "get root r = node_at root (rev r)"

text \<open>
  The chain \<^verbatim>\<open>node.parent, node.parent.parent, ...\<close> up to the root, nearest first. The
  loops \<^verbatim>\<open>let current = node.parent; while (current) { if (...) return true; current =
  current.parent } return false\<close> of the source are \<open>list_ex\<close> over this chain.
\<close>

fun ancestors :: "ref \<Rightarrow> ref list" where
  "ancestors [] = []"
| "ancestors (f # p) = p # ancestors p"

text \<open>\<^verbatim>\<open>isDescendant(parent, child)\<close>: \<open>parent\<close> is a proper ancestor of \<open>child\<close>.\<close>

definition isDescendant :: "ref \<Rightarrow> ref \<Rightarrow> bool" where
  "isDescendant parent child_ref = list_ex (\<lambda>current. current = parent) (ancestors child_ref)"

section \<open>Indexed-access classifier and access identity\<close>

text \<open>\<^verbatim>\<open>isArrayIndexAccess\<close> (lines 137-149), on a member expression.\<close>

definition isArrayIndexAccess :: "node \<Rightarrow> bool" where
  "isArrayIndexAccess n =
     (case n of
        MemberExpression obj prop computed optional \<Rightarrow>
          if \<not> computed then False
          else
            (let isNumericLiteral =
                   (case prop of Literal (NumberLit v) \<Rightarrow> True | _ \<Rightarrow> False);
                 isIdentifier = (case prop of Identifier name \<Rightarrow> True | _ \<Rightarrow> False);
                 isBinaryExpression =
                   (case prop of BinaryExpression operator l r \<Rightarrow> True | _ \<Rightarrow> False)
             in isNumericLiteral \<or> isIdentifier \<or> isBinaryExpression)
      | _ \<Rightarrow> False)"

text \<open>
  JavaScript truthiness of a \<^verbatim>\<open>string | null\<close>: \<^verbatim>\<open>null\<close> and the empty string are falsy.
\<close>

definition truthy :: "string option \<Rightarrow> bool" where
  "truthy k = (case k of None \<Rightarrow> False | Some s \<Rightarrow> s \<noteq> [])"

text \<open>\<^verbatim>\<open>getObjectKey\<close> (lines 154-165).\<close>

fun getObjectKey :: "node \<Rightarrow> string option" where
  "getObjectKey (Identifier name) = Some name"
| "getObjectKey (MemberExpression obj prop computed optional) =
     (if \<not> computed then
        (let objKey = getObjectKey obj in
         if truthy objKey then
           (case prop of
              Identifier pname \<Rightarrow> Some (the objKey @ ''.'' @ pname)
            | _ \<Rightarrow> None)
         else None)
      else None)"
| "getObjectKey _ = None"

text \<open>\<^verbatim>\<open>String(value)\<close> of a literal's value.\<close>

definition String :: "literal_value \<Rightarrow> string" where
  "String v =
     (case v of
        NumberLit s \<Rightarrow> s
      | StringLit s \<Rightarrow> s
      | BooleanLit b \<Rightarrow> (if b then ''true'' else ''false'')
      | NullLit \<Rightarrow> ''null''
      | RegExpLit r \<Rightarrow> (case r of Some s \<Rightarrow> s | None \<Rightarrow> ''null'')
      | BigIntLit b \<Rightarrow> (case b of Some s \<Rightarrow> s | None \<Rightarrow> ''null''))"

text \<open>
  \<^verbatim>\<open>getArrayIndexAccessKey\<close> (lines 254-287) and \<^verbatim>\<open>getMemberExpressionKey\<close>
  (lines 292-318) call each other; \<open>memberKey\<close> is both, the flag telling which one was
  entered. Called on a node that is not a member expression (the source's types exclude
  it) the result is \<open>None\<close>.
\<close>

fun getArrayIndexAccessKey :: "node \<Rightarrow> string option"
  and getMemberExpressionKey :: "node \<Rightarrow> string option" where
  "getArrayIndexAccessKey (MemberExpression obj prop computed optional) =
     (if \<not> isArrayIndexAccess (MemberExpression obj prop computed optional) then None
      else
        (let objectKey =
               (case obj of
                  Identifier name \<Rightarrow> Some name
                | MemberExpression obj' prop' computed' optional' \<Rightarrow>
                    (let nestedKey = getMemberExpressionKey obj in
                     if truthy nestedKey then nestedKey else None)
                | _ \<Rightarrow> None)
         in case objectKey of
              None \<Rightarrow> None
            | Some objectKey \<Rightarrow>
                (case prop of
                   Literal v \<Rightarrow> Some (objectKey @ ''['' @ String v @ '']'')
                 | Identifier name \<Rightarrow> Some (objectKey @ ''['' @ name @ '']'')
                 | _ \<Rightarrow> None)))"
| "getArrayIndexAccessKey _ = None"
| "getMemberExpressionKey (MemberExpression obj prop computed optional) =
     (if computed then getArrayIndexAccessKey (MemberExpression obj prop computed optional)
      else
        (let objectKey =
               (case obj of
                  Identifier name \<Rightarrow> Some name
                | MemberExpression obj' prop' computed' optional' \<Rightarrow>
                    (let nestedKey = getMemberExpressionKey obj in
                     if truthy nestedKey then nestedKey else None)
                | _ \<Rightarrow> None)
         in case objectKey of
              None \<Rightarrow> None
            | Some objectKey \<Rightarrow>
                (case prop of
                   Identifier name \<Rightarrow> Some (objectKey @ ''.'' @ name)
                 | _ \<Rightarrow> None)))"
| "getMemberExpressionKey _ = None"

section \<open>Loop-bound narrowing\<close>

text \<open>
  \<^verbatim>\<open>getForLoopArrayInfo\<close> (lines 171-220): the index variable and the array key of a
  \<^verbatim>\<open>for\<close> statement's test, or \<open>None\<close>.
\<close>

definition getForLoopArrayInfo :: "node \<Rightarrow> (string \<times> string) option" where
  "getForLoopArrayInfo forStatement =
     (case forStatement of
        ForStatement init test update body \<Rightarrow>
          (case test of
             Some (BinaryExpression operator left right) \<Rightarrow>
               if operator \<noteq> ''<'' \<and> operator \<noteq> ''<='' then None
               else
                 (case left of
                    Identifier indexVar \<Rightarrow>
                      (let lengthExpr =
                             (case right of
                                MemberExpression obj prop computed optional \<Rightarrow> Some right
                              | BinaryExpression operator' left' right' \<Rightarrow>
                                  (if operator' = ''-'' then
                                     (case left' of
                                        MemberExpression obj prop computed optional \<Rightarrow> Some left'
                                      | _ \<Rightarrow> None)
                                   else None)
                              | _ \<Rightarrow> None)
                       in case lengthExpr of
                            Some (MemberExpression obj prop computed optional) \<Rightarrow>
                              (case prop of
                                 Identifier pname \<Rightarrow>
                                   if pname \<noteq> ''length'' then None
                                   else
                                     (let arrayKey = getObjectKey obj in
                                      if \<not> truthy arrayKey then None
                                      else Some (indexVar, the arrayKey))
                               | _ \<Rightarrow> None)
                          | _ \<Rightarrow> None)
                  | _ \<Rightarrow> None)
           | _ \<Rightarrow> None)
      | _ \<Rightarrow> None)"

text \<open>\<^verbatim>\<open>isInsideSafeForLoop\<close> (lines 225-249).\<close>

definition isInsideSafeForLoop :: "node \<Rightarrow> ref \<Rightarrow> bool" where
  "isInsideSafeForLoop root node =
     (case get root node of
        Some (MemberExpression obj prop computed optional) \<Rightarrow>
          (case prop of
             Identifier indexVar \<Rightarrow>
               (let arrayKey = getObjectKey obj in
                if \<not> truthy arrayKey then False
                else
                  list_ex
                    (\<lambda>current.
                       case get root current of
                         Some (ForStatement init test update body) \<Rightarrow>
                           (case getForLoopArrayInfo (ForStatement init test update body) of
                              Some (indexVar', arrayKey') \<Rightarrow>
                                indexVar' = indexVar \<and> Some arrayKey' = arrayKey
                            | None \<Rightarrow> False)
                       | _ \<Rightarrow> False)
                    (ancestors node))
           | _ \<Rightarrow> False)
      | _ \<Rightarrow> False)"

section \<open>Guards of a direct use\<close>

text \<open>
  \<^verbatim>\<open>isSafeInLogicalAnd\<close>, \<^verbatim>\<open>isNullishCoalescing\<close>, \<^verbatim>\<open>isSafeInConditional\<close>,
  \<^verbatim>\<open>checkNodeSafety\<close> and \<^verbatim>\<open>isInsideNullCheck\<close> (lines 337-391). \<open>expr\<close> and
  \<open>current\<close> are references to ancestors of \<open>node\<close>.
\<close>

definition isSafeInLogicalAnd :: "node \<Rightarrow> ref \<Rightarrow> ref \<Rightarrow> bool" where
  "isSafeInLogicalAnd root node expr =
     (case get root expr of
        Some (LogicalExpression operator left right) \<Rightarrow>
          (let isOnRightSide = (F_right # expr = node \<or> isDescendant (F_right # expr) node)
           in operator = ''&&'' \<and> isOnRightSide)
      | _ \<Rightarrow> False)"

definition isNullishCoalescing :: "node \<Rightarrow> ref \<Rightarrow> bool" where
  "isNullishCoalescing root expr =
     (case get root expr of
        Some (LogicalExpression operator left right) \<Rightarrow> operator = ''??''
      | _ \<Rightarrow> False)"

definition isSafeInConditional :: "node \<Rightarrow> ref \<Rightarrow> ref \<Rightarrow> bool" where
  "isSafeInConditional root node expr =
     (case get root expr of
        Some (ConditionalExpression test consequent alternate) \<Rightarrow>
          (let isInTest = (F_test # expr = node \<or> isDescendant (F_test # expr) node);
               isInConsequent =
                 (F_consequent # expr = node \<or> isDescendant (F_consequent # expr) node)
           in isInTest \<or> isInConsequent)
      | _ \<Rightarrow> False)"

definition checkNodeSafety :: "node \<Rightarrow> ref \<Rightarrow> ref \<Rightarrow> bool" where
  "checkNodeSafety root node current =
     (case get root current of
        Some (IfStatement test consequent alternate) \<Rightarrow> True
      | Some (LogicalExpression operator left right) \<Rightarrow>
          isSafeInLogicalAnd root node current \<or> isNullishCoalescing root current
      | Some (ConditionalExpression test consequent alternate) \<Rightarrow>
          isSafeInConditional root node current
      | _ \<Rightarrow> False)"

definition isInsideNullCheck :: "node \<Rightarrow> ref \<Rightarrow> bool" where
  "isInsideNullCheck root node = list_ex (checkNodeSafety root node) (ancestors node)"

text \<open>\<^verbatim>\<open>hasOptionalChaining\<close> (lines 396-410), on a reference to a member expression.\<close>

definition hasOptionalChaining :: "node \<Rightarrow> ref \<Rightarrow> bool" where
  "hasOptionalChaining root node =
     (if (case get root node of
            Some (MemberExpression obj prop computed optional) \<Rightarrow> optional
          | _ \<Rightarrow> False)
      then True
      else
        list_ex
          (\<lambda>current. case get root current of Some (ChainExpression e) \<Rightarrow> True | _ \<Rightarrow> False)
          (ancestors node))"

section \<open>Nullish checks\<close>

text \<open>
  \<^verbatim>\<open>isBinaryNullCheck\<close> (lines 415-431) and \<^verbatim>\<open>isBinaryNullCheckForExpression\<close>
  (lines 436-458). A literal's value is never \<^verbatim>\<open>undefined\<close>, so
  \<^verbatim>\<open>right.value === null || right.value === undefined\<close> is \<open>value_is_null\<close>.
\<close>

definition isBinaryNullCheck :: "node \<Rightarrow> string \<Rightarrow> bool" where
  "isBinaryNullCheck expr variableName =
     (case expr of
        BinaryExpression operator left right \<Rightarrow>
          if operator \<noteq> ''!=='' \<and> operator \<noteq> ''!='' \<and> operator \<noteq> ''===''
             \<and> operator \<noteq> ''==''
          then False
          else if (case left of Identifier name \<Rightarrow> name \<noteq> variableName | _ \<Rightarrow> True)
          then False
          else
            (let isNullLiteral = (case right of Literal v \<Rightarrow> value_is_null v | _ \<Rightarrow> False);
                 isUndefinedIdentifier =
                   (case right of Identifier name \<Rightarrow> name = ''undefined'' | _ \<Rightarrow> False)
             in isNullLiteral \<or> isUndefinedIdentifier)
      | _ \<Rightarrow> False)"

definition isBinaryNullCheckForExpression :: "node \<Rightarrow> string \<Rightarrow> bool" where
  "isBinaryNullCheckForExpression expr expressionKey =
     (case expr of
        BinaryExpression operator left right \<Rightarrow>
          if operator \<noteq> ''!=='' \<and> operator \<noteq> ''!='' \<and> operator \<noteq> ''===''
             \<and> operator \<noteq> ''==''
          then False
          else if (case left of
                     MemberExpression obj prop computed optional \<Rightarrow> False
                   | _ \<Rightarrow> True)
          then False
          else if getArrayIndexAccessKey left \<noteq> Some expressionKey then False
          else
            (let isNullLiteral = (case right of Literal v \<Rightarrow> value_is_null v | _ \<Rightarrow> False);
                 isUndefinedIdentifier =
                   (case right of Identifier name \<Rightarrow> name = ''undefined'' | _ \<Rightarrow> False)
             in isNullLiteral \<or> isUndefinedIdentifier)
      | _ \<Rightarrow> False)"

text \<open>\<^verbatim>\<open>checksForNullish\<close> (lines 463-493), the form keyed by a variable name.\<close>

fun checksForNullish :: "node \<Rightarrow> string \<Rightarrow> bool" where
  "checksForNullish (Identifier name) variableName = (name = variableName)"
| "checksForNullish (UnaryExpression operator argument) variableName =
     (operator = ''!'' \<and>
      (case argument of Identifier name \<Rightarrow> name = variableName | _ \<Rightarrow> False))"
| "checksForNullish (BinaryExpression operator left right) variableName =
     isBinaryNullCheck (BinaryExpression operator left right) variableName"
| "checksForNullish (LogicalExpression operator left right) variableName =
     (if operator = ''&&'' then
        checksForNullish left variableName \<or> checksForNullish right variableName
      else if operator = ''||'' then
        checksForNullish left variableName \<or> checksForNullish right variableName
      else False)"
| "checksForNullish _ variableName = False"

text \<open>
  \<^verbatim>\<open>checksForNullishExpression\<close> (lines 498-518), the form keyed by the identity of an
  access.
\<close>

fun checksForNullishExpression :: "node \<Rightarrow> string \<Rightarrow> bool" where
  "checksForNullishExpression (MemberExpression obj prop computed optional) expressionKey =
     (getArrayIndexAccessKey (MemberExpression obj prop computed optional) = Some expressionKey)"
| "checksForNullishExpression (BinaryExpression operator left right) expressionKey =
     isBinaryNullCheckForExpression (BinaryExpression operator left right) expressionKey"
| "checksForNullishExpression (LogicalExpression operator left right) expressionKey =
     (if operator = ''&&'' then
        checksForNullishExpression left expressionKey
        \<or> checksForNullishExpression right expressionKey
      else False)"
| "checksForNullishExpression _ expressionKey = False"

section \<open>Guards keyed by a variable name or by an access identity\<close>

text \<open>\<^verbatim>\<open>isInsideIfConsequent\<close> (lines 523-529); \<open>ifStatement\<close> is an ancestor of \<open>node\<close>.\<close>

definition isInsideIfConsequent :: "node \<Rightarrow> ref \<Rightarrow> ref \<Rightarrow> string \<Rightarrow> bool" where
  "isInsideIfConsequent root node ifStatement variableName =
     (case get root ifStatement of
        Some (IfStatement test consequent alternate) \<Rightarrow>
          if \<not> checksForNullish test variableName then False
          else isDescendant (F_consequent # ifStatement) node
      | _ \<Rightarrow> False)"

text \<open>\<^verbatim>\<open>hasEarlyExit\<close> (lines 534-544).\<close>

fun hasEarlyExit :: "node \<Rightarrow> bool" where
  "hasEarlyExit (ThrowStatement argument) = True"
| "hasEarlyExit (ReturnStatement argument) = True"
| "hasEarlyExit (BlockStatement body) = list_ex hasEarlyExit body"
| "hasEarlyExit _ = False"

text \<open>\<^verbatim>\<open>isInsideIfConsequentExpression\<close> (lines 549-559).\<close>

definition isInsideIfConsequentExpression :: "node \<Rightarrow> ref \<Rightarrow> ref \<Rightarrow> string \<Rightarrow> bool" where
  "isInsideIfConsequentExpression root node ifStatement expressionKey =
     (case get root ifStatement of
        Some (IfStatement test consequent alternate) \<Rightarrow>
          if \<not> checksForNullishExpression test expressionKey then False
          else isDescendant (F_consequent # ifStatement) node
      | _ \<Rightarrow> False)"

text \<open>
  \<^verbatim>\<open>isInsideLogicalAndRight\<close> (lines 604-618) and
  \<^verbatim>\<open>isInsideLogicalAndRightExpression\<close> (lines 623-642).
\<close>

definition isInsideLogicalAndRight :: "node \<Rightarrow> ref \<Rightarrow> ref \<Rightarrow> string \<Rightarrow> bool" where
  "isInsideLogicalAndRight root node logicalExpr variableName =
     (case get root logicalExpr of
        Some (LogicalExpression operator left right) \<Rightarrow>
          if operator \<noteq> ''&&'' then False
          else if (case left of Identifier name \<Rightarrow> name \<noteq> variableName | _ \<Rightarrow> True)
          then False
          else isDescendant (F_right # logicalExpr) node
      | _ \<Rightarrow> False)"

definition isInsideLogicalAndRightExpression :: "node \<Rightarrow> ref \<Rightarrow> ref \<Rightarrow> string \<Rightarrow> bool" where
  "isInsideLogicalAndRightExpression root node logicalExpr expressionKey =
     (case get root logicalExpr of
        Some (LogicalExpression operator left right) \<Rightarrow>
          if operator \<noteq> ''&&'' then False
          else if (case left of
                     MemberExpression obj prop computed optional \<Rightarrow> False
                   | _ \<Rightarrow> True)
          then False
          else if getArrayIndexAccessKey left \<noteq> Some expressionKey then False
          else isDescendant (F_right # logicalExpr) node
      | _ \<Rightarrow> False)"

section \<open>Preceding statements of the enclosing block\<close>

text \<open>\<^verbatim>\<open>node.parent\<close>, undefined at the root.\<close>

definition parent_of :: "ref \<Rightarrow> ref option" where
  "parent_of node = (case node of [] \<Rightarrow> None | f # p \<Rightarrow> Some p)"

text \<open>\<^verbatim>\<open>findContainingStatement\<close> (lines 679-689).\<close>

fun findContainingStatement :: "node \<Rightarrow> ref \<Rightarrow> ref option" where
  "findContainingStatement root [] = None"
| "findContainingStatement root (f # parent) =
     (case get root parent of
        Some (BlockStatement body) \<Rightarrow> Some (f # parent)
      | Some (Program body) \<Rightarrow> Some (f # parent)
      | _ \<Rightarrow> findContainingStatement root parent)"

text \<open>\<^verbatim>\<open>getStatements\<close> (lines 694-699).\<close>

definition getStatements :: "node option \<Rightarrow> node list option" where
  "getStatements parent =
     (case parent of
        Some (BlockStatement body) \<Rightarrow> Some body
      | Some (Program body) \<Rightarrow> Some body
      | _ \<Rightarrow> None)"

text \<open>
  \<^verbatim>\<open>statements.indexOf(statement)\<close>, where \<open>statements\<close> is the body of the parent of
  \<open>statement\<close>: the search is by reference, and the statement reached from its parent
  through \<open>F_body i\<close> is the element \<open>i\<close> of that body. \<open>None\<close> stands for \<open>-1\<close>.
\<close>

definition indexOf :: "node list \<Rightarrow> ref \<Rightarrow> nat option" where
  "indexOf statements statement =
     (case statement of
        F_body i # parent \<Rightarrow> if i < length statements then Some i else None
      | _ \<Rightarrow> None)"

text \<open>\<^verbatim>\<open>hasEarlyExitPatternForExpression\<close> (lines 704-710).\<close>

definition hasEarlyExitPatternForExpression :: "node \<Rightarrow> string \<Rightarrow> bool" where
  "hasEarlyExitPatternForExpression prevStatement expressionKey =
     (case prevStatement of
        IfStatement test consequent alternate \<Rightarrow>
          checksForNullishExpression test expressionKey \<and> hasEarlyExit consequent
      | _ \<Rightarrow> False)"

text \<open>\<^verbatim>\<open>isFalsyCheckExpression\<close> (lines 715-724).\<close>

definition isFalsyCheckExpression :: "node \<Rightarrow> string \<Rightarrow> bool" where
  "isFalsyCheckExpression test expressionKey =
     (case test of
        UnaryExpression operator argument \<Rightarrow>
          if operator = ''!'' then
            (case argument of
               MemberExpression obj prop computed optional \<Rightarrow>
                 getArrayIndexAccessKey argument = Some expressionKey
             | _ \<Rightarrow> False)
          else False
      | _ \<Rightarrow> False)"

text \<open>\<^verbatim>\<open>hasAssignmentToExpression\<close> (lines 729-745).\<close>

fun hasAssignmentToExpression :: "node \<Rightarrow> string \<Rightarrow> bool" where
  "hasAssignmentToExpression (ExpressionStatement expr) expressionKey =
     (case expr of
        AssignmentExpression operator left right \<Rightarrow>
          (case left of
             MemberExpression obj prop computed optional \<Rightarrow>
               getArrayIndexAccessKey left = Some expressionKey
           | _ \<Rightarrow> False)
      | _ \<Rightarrow> False)"
| "hasAssignmentToExpression (BlockStatement body) expressionKey =
     list_ex (\<lambda>stmt. hasAssignmentToExpression stmt expressionKey) body"
| "hasAssignmentToExpression _ expressionKey = False"

text \<open>\<^verbatim>\<open>hasInitializationPatternForExpression\<close> (lines 751-763).\<close>

definition hasInitializationPatternForExpression :: "node \<Rightarrow> string \<Rightarrow> bool" where
  "hasInitializationPatternForExpression prevStatement expressionKey =
     (case prevStatement of
        IfStatement test consequent alternate \<Rightarrow>
          if \<not> isFalsyCheckExpression test expressionKey then False
          else hasAssignmentToExpression consequent expressionKey
      | _ \<Rightarrow> False)"

text \<open>\<^verbatim>\<open>hasEarlyExitPatternForVariable\<close> (lines 768-774).\<close>

definition hasEarlyExitPatternForVariable :: "node \<Rightarrow> string \<Rightarrow> bool" where
  "hasEarlyExitPatternForVariable prevStatement variableName =
     (case prevStatement of
        IfStatement test consequent alternate \<Rightarrow>
          checksForNullish test variableName \<and> hasEarlyExit consequent
      | _ \<Rightarrow> False)"

text \<open>
  \<^verbatim>\<open>checkPreviousIfStatementsForExpression\<close> (lines 779-809) and
  \<^verbatim>\<open>checkPreviousIfStatementsForVariable\<close> (lines 814-838). The loop over the
  statements before \<open>statementIndex\<close> is \<open>list_ex\<close> over \<open>take statementIndex\<close>.
\<close>

definition checkPreviousIfStatementsForExpression :: "node \<Rightarrow> ref \<Rightarrow> string \<Rightarrow> bool" where
  "checkPreviousIfStatementsForExpression root node expressionKey =
     (case findContainingStatement root node of
        None \<Rightarrow> False
      | Some statement \<Rightarrow>
          (case parent_of statement of
             None \<Rightarrow> False
           | Some parent \<Rightarrow>
               (case getStatements (get root parent) of
                  None \<Rightarrow> False
                | Some statements \<Rightarrow>
                    (case indexOf statements statement of
                       None \<Rightarrow> False
                     | Some statementIndex \<Rightarrow>
                         list_ex
                           (\<lambda>prevStatement.
                              hasEarlyExitPatternForExpression prevStatement expressionKey
                              \<or> hasInitializationPatternForExpression prevStatement
                                   expressionKey)
                           (take statementIndex statements)))))"

definition checkPreviousIfStatementsForVariable :: "node \<Rightarrow> ref \<Rightarrow> string \<Rightarrow> bool" where
  "checkPreviousIfStatementsForVariable root node variableName =
     (case findContainingStatement root node of
        None \<Rightarrow> False
      | Some statement \<Rightarrow>
          (case parent_of statement of
             None \<Rightarrow> False
           | Some parent \<Rightarrow>
               (case getStatements (get root parent) of
                  None \<Rightarrow> False
                | Some statements \<Rightarrow>
                    (case indexOf statements statement of
                       None \<Rightarrow> False
                     | Some statementIndex \<Rightarrow>
                         list_ex
                           (\<lambda>prevStatement.
                              hasEarlyExitPatternForVariable prevStatement variableName)
                           (take statementIndex statements)))))"

text \<open>
  \<^verbatim>\<open>isInsideNullCheckedBlock\<close> (lines 647-674) and
  \<^verbatim>\<open>isInsideNullCheckedBlockExpression\<close> (lines 843-870).
\<close>

definition isInsideNullCheckedBlock :: "node \<Rightarrow> ref \<Rightarrow> string \<Rightarrow> bool" where
  "isInsideNullCheckedBlock root node variableName =
     (if checkPreviousIfStatementsForVariable root node variableName then True
      else
        list_ex
          (\<lambda>current.
             case get root current of
               Some (IfStatement test consequent alternate) \<Rightarrow>
                 isInsideIfConsequent root node current variableName
             | Some (LogicalExpression operator left right) \<Rightarrow>
                 isInsideLogicalAndRight root node current variableName
             | _ \<Rightarrow> False)
          (ancestors node))"

definition isInsideNullCheckedBlockExpression :: "node \<Rightarrow> ref \<Rightarrow> string \<Rightarrow> bool" where
  "isInsideNullCheckedBlockExpression root node expressionKey =
     (if checkPreviousIfStatementsForExpression root node expressionKey then True
      else
        list_ex
          (\<lambda>current.
             case get root current of
               Some (IfStatement test consequent alternate) \<Rightarrow>
                 isInsideIfConsequentExpression root node current expressionKey
             | Some (LogicalExpression operator left right) \<Rightarrow>
                 isInsideLogicalAndRightExpression root node current expressionKey
             | _ \<Rightarrow> False)
          (ancestors node))"

section \<open>Use sites\<close>

text \<open>
  \<^verbatim>\<open>isUnsafePropertyAccess\<close> (lines 875-882) and \<^verbatim>\<open>isUnsafeFunctionCall\<close>
  (lines 887-894); \<open>parent\<close> is \<^verbatim>\<open>node.parent\<close>.
\<close>

definition isUnsafePropertyAccess :: "node \<Rightarrow> ref \<Rightarrow> ref option \<Rightarrow> bool" where
  "isUnsafePropertyAccess root node parent =
     (case parent of
        None \<Rightarrow> False
      | Some p \<Rightarrow>
          (case get root p of
             Some (MemberExpression obj prop computed optional) \<Rightarrow>
               F_object # p = node \<and> \<not> hasOptionalChaining root p
               \<and> \<not> isInsideNullCheck root node
           | _ \<Rightarrow> False))"

definition isUnsafeFunctionCall :: "node \<Rightarrow> ref \<Rightarrow> ref option \<Rightarrow> bool" where
  "isUnsafeFunctionCall root node parent =
     (case parent of
        None \<Rightarrow> False
      | Some p \<Rightarrow>
          (case get root p of
             Some (CallExpression callee args optional) \<Rightarrow>
               F_callee # p = node \<and> \<not> hasOptionalChaining root node
               \<and> \<not> isInsideNullCheck root node
           | _ \<Rightarrow> False))"

text \<open>\<^verbatim>\<open>getArrayIndexVariableName\<close> (lines 899-908).\<close>

definition getArrayIndexVariableName :: "node \<Rightarrow> ref \<Rightarrow> string option" where
  "getArrayIndexVariableName root node =
     (case parent_of node of
        None \<Rightarrow> None
      | Some declarator \<Rightarrow>
          (case get root declarator of
             Some (VariableDeclarator ident init) \<Rightarrow>
               (case ident of
                  Identifier name \<Rightarrow> if F_init # declarator = node then Some name else None
                | _ \<Rightarrow> None)
           | _ \<Rightarrow> None))"

section \<open>Type-based exemption\<close>

text \<open>
  The TypeScript compiler is a collaborator of the rule, not part of it. A type is
  modelled by what the rule asks of it: the two flag bits it tests
  (\<^verbatim>\<open>flags & TypeFlags.Number\<close>, \<^verbatim>\<open>flags & TypeFlags.EnumLiteral\<close>), the answers of
  \<^verbatim>\<open>isNumberLiteral()\<close>, \<^verbatim>\<open>isStringLiteral()\<close>, \<^verbatim>\<open>isUnion()\<close> with the member
  \<^verbatim>\<open>types\<close>, the declarations of \<^verbatim>\<open>getSymbol()\<close>, and the checker's answers to
  \<^verbatim>\<open>isArrayType\<close>, \<^verbatim>\<open>isTupleType\<close>, \<^verbatim>\<open>getBaseConstraintOfType\<close> and
  \<^verbatim>\<open>getPropertiesOfType\<close> (the number of properties). The base constraint is absent,
  the type itself, or another type.
\<close>

datatype ts_declaration =
  TsDeclaration (isEnumMember: bool) (parentIsEnumDeclaration: bool)

datatype ts_type =
  TsType
    (flag_Number: bool)
    (flag_EnumLiteral: bool)
    (isNumberLiteral: bool)
    (isStringLiteral: bool)
    (union_types: "ts_type list option")
    (symbol_declarations: "ts_declaration list option option")
    (isArrayType: bool)
    (isTupleType: bool)
    (baseConstraint: base_constraint)
    (properties_length: nat)
and base_constraint =
    NoConstraint
  | SameType
  | Constraint ts_type

text \<open>\<^verbatim>\<open>isEnumType\<close> (lines 54-75).\<close>

definition isEnumType :: "ts_type \<Rightarrow> bool" where
  "isEnumType type =
     (if flag_EnumLiteral type then True
      else
        (case union_types type of
           Some types \<Rightarrow> list_all flag_EnumLiteral types
         | None \<Rightarrow>
             (case symbol_declarations type of
                Some (Some declarations) \<Rightarrow>
                  list_ex (\<lambda>d. isEnumMember d \<or> parentIsEnumDeclaration d) declarations
              | _ \<Rightarrow> False)))"

text \<open>\<^verbatim>\<open>isTypeSafeIndex\<close> (lines 80-132).\<close>

fun isTypeSafeIndex :: "ts_type \<Rightarrow> ts_type \<Rightarrow> bool" where
  "isTypeSafeIndex (TsType fNumber fEnumLiteral numberLiteral stringLiteral types decls
       array tuple constraint props) objectType =
     (let indexType =
            TsType fNumber fEnumLiteral numberLiteral stringLiteral types decls
              array tuple constraint props
      in
        if flag_Number indexType then False
        else if isNumberLiteral indexType then False
        else if isArrayType objectType \<or> isTupleType objectType then False
        else if isEnumType indexType then True
        else if (case union_types indexType of
                   Some ts \<Rightarrow>
                     list_all (\<lambda>t. isStringLiteral t \<or> isNumberLiteral t \<or> isEnumType t) ts
                 | None \<Rightarrow> False)
        then True
        else if isStringLiteral indexType then True
        else
          (case constraint of
             Constraint indexBaseConstraint \<Rightarrow> isTypeSafeIndex indexBaseConstraint objectType
           | _ \<Rightarrow> if properties_length objectType = 0 then False else False))"

text \<open>
  The parser services. Every call into them inside the \<^verbatim>\<open>try\<close> block of
  \<^verbatim>\<open>isSafeKeyAccess\<close> either throws or returns: \<^verbatim>\<open>services.program.getTypeChecker()\<close>,
  \<^verbatim>\<open>services.esTreeNodeToTSNodeMap.get(node)\<close> (which may also return \<^verbatim>\<open>undefined\<close>)
  and \<^verbatim>\<open>checker.getTypeAtLocation\<close>. A TypeScript node is an element access with its
  \<^verbatim>\<open>expression\<close> and \<^verbatim>\<open>argumentExpression\<close>, named by numbers, or something else.
\<close>

datatype error = Thrown

datatype ts_node =
    ElementAccessExpression nat nat
  | OtherTsNode

record checker =
  getTypeAtLocation :: "nat \<Rightarrow> error + ts_type"

record services =
  getTypeChecker :: "error + checker"
  esTreeNodeToTSNodeMap_get :: "ref \<Rightarrow> error + ts_node option"

text \<open>
  \<^verbatim>\<open>isSafeKeyAccess\<close> (lines 19-49). \<open>isSafeKeyAccess_try\<close> is the body of the
  \<^verbatim>\<open>try\<close> block, with \<open>Inl\<close> for a thrown exception; the \<^verbatim>\<open>catch\<close> returns false.
\<close>

definition isSafeKeyAccess_try :: "services \<Rightarrow> ref \<Rightarrow> error + bool" where
  "isSafeKeyAccess_try sv node =
     (case getTypeChecker sv of
        Inl e \<Rightarrow> Inl e
      | Inr checker \<Rightarrow>
          (case esTreeNodeToTSNodeMap_get sv node of
             Inl e \<Rightarrow> Inl e
           | Inr tsNode \<Rightarrow>
               (case tsNode of
                  Some (ElementAccessExpression expression argumentExpression) \<Rightarrow>
                    (case getTypeAtLocation checker expression of
                       Inl e \<Rightarrow> Inl e
                     | Inr objectType \<Rightarrow>
                         (case getTypeAtLocation checker argumentExpression of
                            Inl e \<Rightarrow> Inl e
                          | Inr indexType \<Rightarrow> Inr (isTypeSafeIndex indexType objectType)))
                | _ \<Rightarrow> Inr False)))"

definition isSafeKeyAccess :: "node \<Rightarrow> ref \<Rightarrow> services option \<Rightarrow> bool" where
  "isSafeKeyAccess root node services =
     (case services of
        None \<Rightarrow> False
      | Some sv \<Rightarrow>
          (case get root node of
             Some (MemberExpression obj prop computed optional) \<Rightarrow>
               if \<not> computed then False
               else
                 (case prop of
                    Identifier name \<Rightarrow>
                      (case isSafeKeyAccess_try sv node of
                         Inl e \<Rightarrow> False
                       | Inr result \<Rightarrow> result)
                  | _ \<Rightarrow> False)
           | _ \<Rightarrow> False))"

text \<open>
  The start of \<^verbatim>\<open>create\<close> (lines 929-938): \<^verbatim>\<open>ESLintUtils.getParserServices(context)\<close>
  throws or returns parser services, whose \<^verbatim>\<open>program\<close> may be null; \<open>services\<close> stays
  null unless it returned services with a program.
\<close>

record parser_services =
  has_program :: bool
  typed_services :: services

definition create_services :: "error + parser_services \<Rightarrow> services option" where
  "create_services getParserServices =
     (case getParserServices of
        Inl e \<Rightarrow> None
      | Inr parserServices \<Rightarrow>
          if has_program parserServices then Some (typed_services parserServices) else None)"

section \<open>Scopes\<close>

text \<open>
  \<^verbatim>\<open>context.sourceCode.getScope(node)\<close> is the host's scope analysis. The rule reads a
  scope's \<^verbatim>\<open>variables\<close>, a variable's \<^verbatim>\<open>name\<close> and \<^verbatim>\<open>defs\<close>, a definition's
  \<^verbatim>\<open>node\<close>, and follows \<^verbatim>\<open>upper\<close>: a scope is the list of its variables, a variable
  has a name and the nodes of its definitions, and \<open>getScope\<close> gives the chain of scopes of
  a node, innermost first.
\<close>

datatype variable = Variable (var_name: string) (var_defs: "ref list")

type_synonym scope = "variable list"

text \<open>
  \<^verbatim>\<open>isArrayIndexVariable\<close> (lines 943-968). \<open>scanVariables\<close> is the loop over the
  variables of one scope: \<open>None\<close> when no variable has the name, otherwise what the loop
  returns at the first variable with that name. \<open>walkScopes\<close> is the loop over the chain.
\<close>

fun scanVariables :: "node \<Rightarrow> ref set \<Rightarrow> variable list \<Rightarrow> string \<Rightarrow> bool option" where
  "scanVariables root arrayIndexDeclarations [] name = None"
| "scanVariables root arrayIndexDeclarations (v # vs) name =
     (if var_name v = name then
        Some
          (list_ex
             (\<lambda>def_node.
                case get root def_node of
                  Some (VariableDeclarator ident init) \<Rightarrow> def_node \<in> arrayIndexDeclarations
                | _ \<Rightarrow> False)
             (var_defs v))
      else scanVariables root arrayIndexDeclarations vs name)"

fun walkScopes :: "node \<Rightarrow> ref set \<Rightarrow> scope list \<Rightarrow> string \<Rightarrow> bool" where
  "walkScopes root arrayIndexDeclarations [] name = False"
| "walkScopes root arrayIndexDeclarations (currentScope # upper) name =
     (case scanVariables root arrayIndexDeclarations currentScope name of
        Some result \<Rightarrow> result
      | None \<Rightarrow> walkScopes root arrayIndexDeclarations upper name)"

definition isArrayIndexVariable ::
  "node \<Rightarrow> (ref \<Rightarrow> scope list) \<Rightarrow> ref set \<Rightarrow> ref \<Rightarrow> bool" where
  "isArrayIndexVariable root getScope arrayIndexDeclarations node =
     (case get root node of
        Some (Identifier name) \<Rightarrow> walkScopes root arrayIndexDeclarations (getScope node) name
      | _ \<Rightarrow> False)"

section \<open>The rule's handlers\<close>

datatype diagnostic = Diagnostic (diag_node: ref) (messageId: string)

text \<open>The \<^verbatim>\<open>VariableDeclarator\<close> handler (lines 972-985): the new set of declarations.\<close>

definition onVariableDeclarator :: "node \<Rightarrow> services option \<Rightarrow> ref set \<Rightarrow> ref \<Rightarrow> ref set" where
  "onVariableDeclarator root services arrayIndexDeclarations node =
     (case get root node of
        Some (VariableDeclarator ident init) \<Rightarrow>
          (case init of
             Some (MemberExpression obj prop computed optional) \<Rightarrow>
               if isArrayIndexAccess (MemberExpression obj prop computed optional)
                  \<and> (case ident of Identifier name \<Rightarrow> True | _ \<Rightarrow> False)
               then
                 if isSafeKeyAccess root (F_init # node) services then arrayIndexDeclarations
                 else insert node arrayIndexDeclarations
               else arrayIndexDeclarations
           | _ \<Rightarrow> arrayIndexDeclarations)
      | _ \<Rightarrow> arrayIndexDeclarations)"

text \<open>The \<^verbatim>\<open>MemberExpression\<close> handler (lines 988-1029): the diagnostics it reports.\<close>

definition onMemberExpression :: "node \<Rightarrow> services option \<Rightarrow> ref \<Rightarrow> diagnostic list" where
  "onMemberExpression root services node =
     (case get root node of
        Some (MemberExpression obj prop computed optional) \<Rightarrow>
          if \<not> isArrayIndexAccess (MemberExpression obj prop computed optional) then []
          else
            (let parent = parent_of node;
                 variableName = getArrayIndexVariableName root node
             in
               if truthy variableName then []
               else if isSafeKeyAccess root node services then []
               else if isInsideSafeForLoop root node then []
               else
                 (let expressionKey =
                        getArrayIndexAccessKey (MemberExpression obj prop computed optional)
                  in
                    if truthy expressionKey
                       \<and> isInsideNullCheckedBlockExpression root node (the expressionKey)
                    then []
                    else if isUnsafePropertyAccess root node parent
                    then [Diagnostic node ''issue:unsafe-access'']
                    else if isUnsafeFunctionCall root node parent
                    then [Diagnostic node ''issue:unsafe-access'']
                    else []))
      | _ \<Rightarrow> [])"

text \<open>
  The handler of \<^verbatim>\<open>MemberExpression[object.type="Identifier"]\<close> (lines 1032-1049).
\<close>

definition onMemberExpressionOfIdentifier ::
  "node \<Rightarrow> (ref \<Rightarrow> scope list) \<Rightarrow> ref set \<Rightarrow> ref \<Rightarrow> diagnostic list" where
  "onMemberExpressionOfIdentifier root getScope arrayIndexDeclarations node =
     (case get root node of
        Some (MemberExpression obj prop computed optional) \<Rightarrow>
          (case obj of
             Identifier name \<Rightarrow>
               (let objectNode = F_object # node in
                if isArrayIndexVariable root getScope arrayIndexDeclarations objectNode then
                  if hasOptionalChaining root node then []
                  else if isInsideNullCheckedBlock root node name then []
                  else [Diagnostic objectNode ''issue:unsafe-access'']
                else [])
           | _ \<Rightarrow> [])
      | _ \<Rightarrow> [])"

text \<open>
  The handler of \<^verbatim>\<open>CallExpression[callee.type="Identifier"]\<close> (lines 1052-1064).
\<close>

definition onCallExpressionOfIdentifier ::
  "node \<Rightarrow> (ref \<Rightarrow> scope list) \<Rightarrow> ref set \<Rightarrow> ref \<Rightarrow> diagnostic list" where
  "onCallExpressionOfIdentifier root getScope arrayIndexDeclarations node =
     (case get root node of
        Some (CallExpression callee args optional) \<Rightarrow>
          (case callee of
             Identifier name \<Rightarrow>
               (let calleeNode = F_callee # node in
                if isArrayIndexVariable root getScope arrayIndexDeclarations calleeNode then
                  if isInsideNullCheckedBlock root node name then []
                  else [Diagnostic calleeNode ''issue:unsafe-access'']
                else [])
           | _ \<Rightarrow> [])
      | _ \<Rightarrow> [])"

subsection \<open>One analysis of a file\<close>

text \<open>
  \<^verbatim>\<open>create\<close> starts every file with an empty set of declarations; the host then calls
  the handlers whose selector matches each node it visits. \<open>visit\<close> is what the rule does
  at one visited node, \<open>run\<close> the state after the nodes of \<open>order\<close> were visited in
  that order, \<open>analyse\<close> the diagnostics reported by then. The order of the visit is the host's; it is a parameter.
\<close>

record analysis_state =
  arrayIndexDeclarations :: "ref set"
  reports :: "diagnostic list"

definition visit ::
  "node \<Rightarrow> services option \<Rightarrow> (ref \<Rightarrow> scope list) \<Rightarrow> analysis_state \<Rightarrow> ref \<Rightarrow> analysis_state"
  where
  "visit root services getScope st node =
     (case get root node of
        Some (VariableDeclarator ident init) \<Rightarrow>
          st\<lparr>arrayIndexDeclarations :=
               onVariableDeclarator root services (arrayIndexDeclarations st) node\<rparr>
      | Some (MemberExpression obj prop computed optional) \<Rightarrow>
          st\<lparr>reports :=
               reports st @ onMemberExpression root services node
               @ onMemberExpressionOfIdentifier root getScope (arrayIndexDeclarations st) node\<rparr>
      | Some (CallExpression callee args optional) \<Rightarrow>
          st\<lparr>reports :=
               reports st
               @ onCallExpressionOfIdentifier root getScope (arrayIndexDeclarations st) node\<rparr>
      | _ \<Rightarrow> st)"

definition run ::
  "node \<Rightarrow> error + parser_services \<Rightarrow> (ref \<Rightarrow> scope list) \<Rightarrow> ref list \<Rightarrow> analysis_state"
  where
  "run root getParserServices getScope order =
     foldl (visit root (create_services getParserServices) getScope)
       \<lparr>arrayIndexDeclarations = {}, reports = []\<rparr> order"

definition analyse ::
  "node \<Rightarrow> error + parser_services \<Rightarrow> (ref \<Rightarrow> scope list) \<Rightarrow> ref list \<Rightarrow> diagnostic list"
  where
  "analyse root getParserServices getScope order =
     reports (run root getParserServices getScope order)"

section \<open>The guards as the specification words them\<close>

text \<open>
  Section 4.4 of the specification lists the guards of a use site \<open>U\<close> of a subject
  \<open>S\<close>. The definitions below follow its sentences for a raw access, whose subject is
  the access identity of \<open>U\<close>; they are what the handlers above are compared with.

  A use site is a dynamic-key access with a property read directly off it or called
  directly.
\<close>

definition is_direct_use :: "node \<Rightarrow> ref \<Rightarrow> bool" where
  "is_direct_use root U =
     (case parent_of U of
        None \<Rightarrow> False
      | Some p \<Rightarrow>
          (case get root p of
             Some (MemberExpression obj prop computed optional) \<Rightarrow> F_object # p = U
           | Some (CallExpression callee args optional) \<Rightarrow> F_callee # p = U
           | _ \<Rightarrow> False))"

text \<open>An expression is the subject of \<open>U\<close> when both have the same access identity.\<close>

definition is_subject :: "node \<Rightarrow> ref \<Rightarrow> node \<Rightarrow> bool" where
  "is_subject root U e =
     (case get root U of
        None \<Rightarrow> False
      | Some s \<Rightarrow>
          truthy (getArrayIndexAccessKey s)
          \<and> getArrayIndexAccessKey e = getArrayIndexAccessKey s)"

definition is_nullish_literal :: "node \<Rightarrow> bool" where
  "is_nullish_literal e = (e = Literal NullLit \<or> e = Identifier ''undefined'')"

text \<open>
  ``A nullish check is, recursively: a bare truthiness test of S; a negated truthiness
  test; an equality/inequality comparison of S against a null or undefined literal (any
  of the four operators); or a conjunction/disjunction of nullish checks (either side
  qualifying is sufficient).'' The sentence does not fix the side of the literal; both
  orders count here.
\<close>

fun spec_nullish_check :: "(node \<Rightarrow> bool) \<Rightarrow> node \<Rightarrow> bool" where
  "spec_nullish_check isS (UnaryExpression operator argument) =
     (operator = ''!'' \<and> isS argument)"
| "spec_nullish_check isS (BinaryExpression operator left right) =
     ((operator = ''=='' \<or> operator = ''==='' \<or> operator = ''!='' \<or> operator = ''!=='')
      \<and> (isS left \<and> is_nullish_literal right \<or> is_nullish_literal left \<and> isS right))"
| "spec_nullish_check isS (LogicalExpression operator left right) =
     ((operator = ''&&'' \<or> operator = ''||'')
      \<and> (spec_nullish_check isS left \<or> spec_nullish_check isS right))"
| "spec_nullish_check isS test = isS test"

text \<open>\<open>U\<close> is the node \<open>r\<close> or lies below it.\<close>

definition within :: "ref \<Rightarrow> ref \<Rightarrow> bool" where
  "within r U = (r = U \<or> isDescendant r U)"

text \<open>
  1. Optional chaining applied directly to the access or to the use itself, or
  membership in an optional chain wrapper.
\<close>

definition spec_optional_chaining :: "node \<Rightarrow> ref \<Rightarrow> bool" where
  "spec_optional_chaining root U =
     ((case get root U of
         Some (MemberExpression obj prop computed optional) \<Rightarrow> optional
       | _ \<Rightarrow> False)
      \<or> (case parent_of U of
            None \<Rightarrow> False
          | Some p \<Rightarrow>
              (case get root p of
                 Some (MemberExpression obj prop computed optional) \<Rightarrow> optional
               | Some (CallExpression callee args optional) \<Rightarrow> optional
               | _ \<Rightarrow> False))
      \<or> list_ex
           (\<lambda>current. case get root current of Some (ChainExpression e) \<Rightarrow> True | _ \<Rightarrow> False)
           (ancestors U))"

text \<open>
  2. Short-circuit AND: \<open>U\<close> is the right operand, or below it, of a logical AND whose
  left operand is exactly \<open>S\<close>.
\<close>

definition spec_short_circuit_and :: "node \<Rightarrow> ref \<Rightarrow> bool" where
  "spec_short_circuit_and root U =
     list_ex
       (\<lambda>current.
          case get root current of
            Some (LogicalExpression operator left right) \<Rightarrow>
              operator = ''&&'' \<and> is_subject root U left \<and> within (F_right # current) U
          | _ \<Rightarrow> False)
       (ancestors U)"

text \<open>3. Nullish coalescing: \<open>U\<close> sits as the left operand of a nullish coalescing.\<close>

definition spec_nullish_coalescing :: "node \<Rightarrow> ref \<Rightarrow> bool" where
  "spec_nullish_coalescing root U =
     list_ex
       (\<lambda>current.
          case get root current of
            Some (LogicalExpression operator left right) \<Rightarrow>
              operator = ''??'' \<and> within (F_left # current) U
          | _ \<Rightarrow> False)
       (ancestors U)"

text \<open>
  4. Guarded branch: \<open>U\<close> lies inside the ``then'' branch of a conditional whose test is
  a nullish check of \<open>S\<close>.
\<close>

definition spec_guarded_branch :: "node \<Rightarrow> ref \<Rightarrow> bool" where
  "spec_guarded_branch root U =
     list_ex
       (\<lambda>current.
          case get root current of
            Some (IfStatement test consequent alternate) \<Rightarrow>
              spec_nullish_check (is_subject root U) test \<and> within (F_consequent # current) U
          | _ \<Rightarrow> False)
       (ancestors U)"

text \<open>5. Ternary branch: \<open>U\<close> lies in the test or the consequent of a ternary.\<close>

definition spec_ternary_branch :: "node \<Rightarrow> ref \<Rightarrow> bool" where
  "spec_ternary_branch root U =
     list_ex
       (\<lambda>current.
          case get root current of
            Some (ConditionalExpression test consequent alternate) \<Rightarrow>
              within (F_test # current) U \<or> within (F_consequent # current) U
          | _ \<Rightarrow> False)
       (ancestors U)"

text \<open>The statements that precede the statement of \<open>U\<close> in its enclosing block.\<close>

definition preceding_statements :: "node \<Rightarrow> ref \<Rightarrow> node list" where
  "preceding_statements root U =
     (case findContainingStatement root U of
        Some (F_body i # block) \<Rightarrow>
          (case getStatements (get root block) of
             Some statements \<Rightarrow> take i statements
           | None \<Rightarrow> [])
      | _ \<Rightarrow> [])"

text \<open>
  6. Early-exit narrowing: a preceding statement is an \<^verbatim>\<open>if\<close> whose test is a nullish
  check of \<open>S\<close> and whose consequent contains a \<^verbatim>\<open>throw\<close> or \<^verbatim>\<open>return\<close>.
\<close>

definition spec_early_exit :: "node \<Rightarrow> ref \<Rightarrow> bool" where
  "spec_early_exit root U =
     list_ex
       (\<lambda>statement.
          case statement of
            IfStatement test consequent alternate \<Rightarrow>
              spec_nullish_check (is_subject root U) test \<and> hasEarlyExit consequent
          | _ \<Rightarrow> False)
       (preceding_statements root U)"

text \<open>
  7. Lazy initialization: a preceding \<^verbatim>\<open>if (!S)\<close> whose consequent assigns to the same
  access expression.
\<close>

definition spec_lazy_initialization :: "node \<Rightarrow> ref \<Rightarrow> bool" where
  "spec_lazy_initialization root U =
     list_ex
       (\<lambda>statement.
          case statement of
            IfStatement test consequent alternate \<Rightarrow>
              (case test of
                 UnaryExpression operator argument \<Rightarrow>
                   operator = ''!'' \<and> is_subject root U argument
               | _ \<Rightarrow> False)
              \<and> (case get root U of
                    Some s \<Rightarrow>
                      (case getArrayIndexAccessKey s of
                         Some k \<Rightarrow> hasAssignmentToExpression consequent k
                       | None \<Rightarrow> False)
                  | None \<Rightarrow> False)
          | _ \<Rightarrow> False)
       (preceding_statements root U)"

text \<open>
  8. Loop-bound narrowing: the key of \<open>U\<close> is an identifier equal to the control variable
  of an enclosing \<^verbatim>\<open>for\<close> loop whose test is \<^verbatim>\<open>indexVar < arrayExpr.length\<close> or
  \<^verbatim>\<open>indexVar <= arrayExpr.length - 1\<close>, and the object expression of \<open>U\<close> is textually
  identical to \<^verbatim>\<open>arrayExpr\<close>: it is the same expression. \<open>spec_loop_test\<close> gives the
  control variable and the array expression of a test of one of the two shapes.
\<close>

definition is_length_of :: "node \<Rightarrow> node option" where
  "is_length_of e =
     (case e of
        MemberExpression arrayExpr prop computed optional \<Rightarrow>
          if \<not> computed \<and> prop = Identifier ''length'' then Some arrayExpr else None
      | _ \<Rightarrow> None)"

definition spec_loop_test :: "node \<Rightarrow> (string \<times> node) option" where
  "spec_loop_test test =
     (case test of
        BinaryExpression operator left right \<Rightarrow>
          (case left of
             Identifier indexVar \<Rightarrow>
               if operator = ''<'' then
                 (case is_length_of right of
                    Some arrayExpr \<Rightarrow> Some (indexVar, arrayExpr)
                  | None \<Rightarrow> None)
               else if operator = ''<='' then
                 (case right of
                    BinaryExpression operator' left' right' \<Rightarrow>
                      if operator' = ''-'' \<and> right' = Literal (NumberLit ''1'') then
                        (case is_length_of left' of
                           Some arrayExpr \<Rightarrow> Some (indexVar, arrayExpr)
                         | None \<Rightarrow> None)
                      else None
                  | _ \<Rightarrow> None)
               else None
           | _ \<Rightarrow> None)
      | _ \<Rightarrow> None)"

definition spec_loop_bound :: "node \<Rightarrow> ref \<Rightarrow> bool" where
  "spec_loop_bound root U =
     (case get root U of
        Some (MemberExpression obj prop computed optional) \<Rightarrow>
          (case prop of
             Identifier key \<Rightarrow>
               list_ex
                 (\<lambda>current.
                    case get root current of
                      Some (ForStatement init test update body) \<Rightarrow>
                        (case test of
                           Some t \<Rightarrow> spec_loop_test t = Some (key, obj)
                         | None \<Rightarrow> False)
                    | _ \<Rightarrow> False)
                 (ancestors U)
           | _ \<Rightarrow> False)
      | _ \<Rightarrow> False)"

definition spec_guard_applies :: "node \<Rightarrow> ref \<Rightarrow> bool" where
  "spec_guard_applies root U =
     (spec_optional_chaining root U \<or> spec_short_circuit_and root U
      \<or> spec_nullish_coalescing root U \<or> spec_guarded_branch root U
      \<or> spec_ternary_branch root U \<or> spec_early_exit root U
      \<or> spec_lazy_initialization root U \<or> spec_loop_bound root U)"

text \<open>The diagnostics of a list that are anchored at a node.\<close>

definition reports_at :: "ref \<Rightarrow> diagnostic list \<Rightarrow> diagnostic list" where
  "reports_at U ds = filter (\<lambda>d. diag_node d = U) ds"

section \<open>Notions of the claims\<close>

text \<open>
  What the two comparisons accept as their right operand: a literal whose value is null
  (the \<^verbatim>\<open>null\<close> keyword, or a literal left without a value by the runtime), or the
  identifier \<^verbatim>\<open>undefined\<close>.
\<close>

definition is_null_valued :: "node \<Rightarrow> bool" where
  "is_null_valued e =
     (case e of
        Literal v \<Rightarrow> value_is_null v
      | Identifier name \<Rightarrow> name = ''undefined''
      | _ \<Rightarrow> False)"

text \<open>A reversed comparison has such an operand on its left.\<close>

definition is_reversed_comparison :: "node \<Rightarrow> bool" where
  "is_reversed_comparison test =
     (case test of
        BinaryExpression operator left right \<Rightarrow> is_null_valued left
      | _ \<Rightarrow> False)"

text \<open>
  The only tests around a node are reversed comparisons: every \<^verbatim>\<open>if\<close> statement that
  encloses it and every \<^verbatim>\<open>if\<close> statement that precedes its statement in the enclosing
  block has a reversed comparison as its test, and no logical expression encloses it.
\<close>

definition only_reversed_tests :: "node \<Rightarrow> ref \<Rightarrow> bool" where
  "only_reversed_tests root node =
     (list_all
        (\<lambda>current.
           case get root current of
             Some (IfStatement test consequent alternate) \<Rightarrow> is_reversed_comparison test
           | Some (LogicalExpression operator left right) \<Rightarrow> False
           | _ \<Rightarrow> True)
        (ancestors node)
      \<and> list_all
           (\<lambda>statement.
              case statement of
                IfStatement test consequent alternate \<Rightarrow> is_reversed_comparison test
              | _ \<Rightarrow> True)
           (preceding_statements root node))"

text \<open>
  The flow-based guard rules of the \<^verbatim>\<open>MemberExpression\<close> handler (lines 1007-1028):
  what the handler does with an access that the oracle has not exempted.
\<close>

definition flow_based_guard_rules :: "node \<Rightarrow> ref \<Rightarrow> diagnostic list" where
  "flow_based_guard_rules root node =
     (case get root node of
        Some (MemberExpression obj prop computed optional) \<Rightarrow>
          if isInsideSafeForLoop root node then []
          else
            (let expressionKey =
                   getArrayIndexAccessKey (MemberExpression obj prop computed optional)
             in
               if truthy expressionKey
                  \<and> isInsideNullCheckedBlockExpression root node (the expressionKey)
               then []
               else if isUnsafePropertyAccess root node (parent_of node)
               then [Diagnostic node ''issue:unsafe-access'']
               else if isUnsafeFunctionCall root node (parent_of node)
               then [Diagnostic node ''issue:unsafe-access'']
               else [])
      | _ \<Rightarrow> [])"

text \<open>
  A numeric static type: \<^verbatim>\<open>number\<close>, a number literal type, a union of numeric types
  (which a numeric enum type is), or a type bounded by a numeric type.
\<close>

fun numeric_type :: "ts_type \<Rightarrow> bool" where
  "numeric_type (TsType fNumber fEnumLiteral numberLiteral stringLiteral types decls
       array tuple constraint props) =
     (fNumber \<or> numberLiteral
      \<or> (case types of
            Some ts \<Rightarrow> ts \<noteq> [] \<and> list_all numeric_type ts
          | None \<Rightarrow> False)
      \<or> (case constraint of
            Constraint bound \<Rightarrow> numeric_type bound
          | _ \<Rightarrow> False))"

section \<open>Example programs\<close>

text \<open>\<^verbatim>\<open>arr[0]\<close>, \<^verbatim>\<open>arr[0].foo\<close> and a member read \<^verbatim>\<open>e.foo\<close> in general.\<close>

definition arr0 :: node where
  "arr0 = MemberExpression (Identifier ''arr'') (Literal (NumberLit ''0'')) True False"

definition dot :: "node \<Rightarrow> string \<Rightarrow> node" where
  "dot e name = MemberExpression e (Identifier name) False False"

definition index :: "node \<Rightarrow> node \<Rightarrow> node" where
  "index e key = MemberExpression e key True False"

text \<open>\<^verbatim>\<open>arr[0].foo;\<close>\<close>

definition ex_unguarded :: node where
  "ex_unguarded = Program [ExpressionStatement (dot arr0 ''foo'')]"

definition use_unguarded :: ref where
  "use_unguarded = [F_object, F_expression, F_body 0]"

definition order_unguarded :: "ref list" where
  "order_unguarded =
     [[], [F_body 0], [F_expression, F_body 0], use_unguarded,
      F_object # use_unguarded, F_property # use_unguarded,
      [F_property, F_expression, F_body 0]]"

text \<open>\<^verbatim>\<open>if (test) { arr[0].foo; }\<close>\<close>

definition ex_if :: "node \<Rightarrow> node" where
  "ex_if test =
     Program [IfStatement test (BlockStatement [ExpressionStatement (dot arr0 ''foo'')]) None]"

definition use_if :: ref where
  "use_if = [F_object, F_expression, F_body 0, F_consequent, F_body 0]"

definition order_if_flag :: "ref list" where
  "order_if_flag =
     [[], [F_body 0], [F_test, F_body 0], [F_consequent, F_body 0],
      [F_body 0, F_consequent, F_body 0], [F_expression, F_body 0, F_consequent, F_body 0],
      use_if, F_object # use_if, F_property # use_if,
      [F_property, F_expression, F_body 0, F_consequent, F_body 0]]"

text \<open>The reversed comparison \<^verbatim>\<open>null !== arr[0]\<close>.\<close>

definition reversed_test :: node where
  "reversed_test = BinaryExpression ''!=='' (Literal NullLit) arr0"

definition order_if_reversed :: "ref list" where
  "order_if_reversed =
     [[], [F_body 0], [F_test, F_body 0], [F_left, F_test, F_body 0],
      [F_right, F_test, F_body 0], [F_object, F_right, F_test, F_body 0],
      [F_property, F_right, F_test, F_body 0], [F_consequent, F_body 0],
      [F_body 0, F_consequent, F_body 0], [F_expression, F_body 0, F_consequent, F_body 0],
      use_if, F_object # use_if, F_property # use_if,
      [F_property, F_expression, F_body 0, F_consequent, F_body 0]]"

text \<open>\<^verbatim>\<open>const item = arr[0]; if (test) { item.foo; }\<close>\<close>

definition ex_if_variable :: "node \<Rightarrow> node" where
  "ex_if_variable test =
     Program
       [VariableDeclaration [VariableDeclarator (Identifier ''item'') (Some arr0)],
        IfStatement test
          (BlockStatement [ExpressionStatement (dot (Identifier ''item'') ''foo'')]) None]"

text \<open>\<^verbatim>\<open>const item = arr[0]; if (null !== item) { item.foo; }\<close>\<close>

definition ex_reversed_variable :: node where
  "ex_reversed_variable =
     ex_if_variable (BinaryExpression ''!=='' (Literal NullLit) (Identifier ''item''))"

definition item_declarator :: ref where
  "item_declarator = [F_declarations 0, F_body 0]"

definition item_read :: ref where
  "item_read = [F_expression, F_body 0, F_consequent, F_body 1]"

definition item_scopes :: "ref \<Rightarrow> scope list" where
  "item_scopes r = [[Variable ''item'' [item_declarator]]]"

text \<open>
  \<^verbatim>\<open>for (let i = 0; test; i++) { a[i].foo; }\<close> for a test and an array expression \<open>a\<close>.
\<close>

definition ex_for :: "node \<Rightarrow> node \<Rightarrow> node" where
  "ex_for test a =
     Program
       [ForStatement
          (Some (VariableDeclaration
                   [VariableDeclarator (Identifier ''i'') (Some (Literal (NumberLit ''0'')))]))
          (Some test)
          (Some (OtherNode ''UpdateExpression'' [Identifier ''i'']))
          (BlockStatement [ExpressionStatement (dot (index a (Identifier ''i'')) ''foo'')])]"

definition use_for :: ref where
  "use_for = [F_object, F_expression, F_body 0, F_body 0, F_body 0]"

definition lt_length :: "node \<Rightarrow> node" where
  "lt_length a = BinaryExpression ''<'' (Identifier ''i'') (dot a ''length'')"

definition le_length :: "node \<Rightarrow> node" where
  "le_length a = BinaryExpression ''<='' (Identifier ''i'') (dot a ''length'')"

definition this_items :: node where
  "this_items = dot (OtherNode ''ThisExpression'' []) ''items''"

text \<open>\<^verbatim>\<open>if (!arr[0]) { return; } arr[0].foo;\<close>\<close>

definition ex_negated_exit :: node where
  "ex_negated_exit =
     Program
       [IfStatement (UnaryExpression ''!'' arr0) (BlockStatement [ReturnStatement None]) None,
        ExpressionStatement (dot arr0 ''foo'')]"

definition use_negated_exit :: ref where
  "use_negated_exit = [F_object, F_expression, F_body 1]"

text \<open>\<^verbatim>\<open>const item = arr[0]; if (!item) { return; } item.foo;\<close>\<close>

definition ex_negated_exit_variable :: node where
  "ex_negated_exit_variable =
     Program
       [VariableDeclaration [VariableDeclarator (Identifier ''item'') (Some arr0)],
        IfStatement (UnaryExpression ''!'' (Identifier ''item''))
          (BlockStatement [ReturnStatement None]) None,
        ExpressionStatement (dot (Identifier ''item'') ''foo'')]"

definition item_read_after_exit :: ref where
  "item_read_after_exit = [F_expression, F_body 2]"

text \<open>
  \<^verbatim>\<open>const fare = fares[0]; function calcFare(fare) { return fare.getColumnValue(column); }\<close>
  The parameter \<^verbatim>\<open>fare\<close> is defined by the function node; the outer \<^verbatim>\<open>fare\<close> by its
  declarator.
\<close>

definition ex_shadow :: node where
  "ex_shadow =
     Program
       [VariableDeclaration
          [VariableDeclarator (Identifier ''fare'')
             (Some (index (Identifier ''fares'') (Literal (NumberLit ''0''))))],
        OtherNode ''FunctionDeclaration''
          [Identifier ''calcFare'', Identifier ''fare'',
           BlockStatement
             [ReturnStatement
                (Some (CallExpression (dot (Identifier ''fare'') ''getColumnValue'')
                         [Identifier ''column''] False))]]]"

definition fare_declarator :: ref where
  "fare_declarator = [F_declarations 0, F_body 0]"

definition fare_read :: ref where
  "fare_read = [F_callee, F_argument, F_body 0, F_children 2, F_body 1]"

definition shadow_scopes :: "ref \<Rightarrow> scope list" where
  "shadow_scopes r =
     [[Variable ''arguments'' [], Variable ''fare'' [[F_body 1]]],
      [Variable ''fare'' [fare_declarator], Variable ''calcFare'' [[F_body 1]]]]"

text \<open>
  \<^verbatim>\<open>const fare = fares[0]; function calc() { return fare.getColumnValue(column); }\<close>
  The function declares no \<^verbatim>\<open>fare\<close>; the read resolves to the outer declarator through
  the scope of the function.
\<close>

definition ex_closure :: node where
  "ex_closure =
     Program
       [VariableDeclaration
          [VariableDeclarator (Identifier ''fare'')
             (Some (index (Identifier ''fares'') (Literal (NumberLit ''0''))))],
        OtherNode ''FunctionDeclaration''
          [Identifier ''calc'',
           BlockStatement
             [ReturnStatement
                (Some (CallExpression (dot (Identifier ''fare'') ''getColumnValue'')
                         [Identifier ''column''] False))]]]"

definition closure_read :: ref where
  "closure_read = [F_callee, F_argument, F_body 0, F_children 1, F_body 1]"

definition closure_scopes :: "ref \<Rightarrow> scope list" where
  "closure_scopes r =
     [[Variable ''arguments'' []],
      [Variable ''fare'' [fare_declarator], Variable ''calc'' [[F_body 1]]]]"

text \<open>\<^verbatim>\<open>obj['foo'].bar;\<close> and \<^verbatim>\<open>const x = obj['foo'];\<close>\<close>

definition ex_string_key :: node where
  "ex_string_key =
     Program
       [VariableDeclaration
          [VariableDeclarator (Identifier ''x'')
             (Some (index (Identifier ''obj'') (Literal (StringLit ''foo''))))],
        ExpressionStatement
          (dot (index (Identifier ''obj'') (Literal (StringLit ''foo''))) ''bar'')]"

text \<open>
  \<^verbatim>\<open>map[key].foo;\<close> for a key expression, and parser services under which every key is
  of an enum type and every object a record with two properties.
\<close>

definition ex_keyed :: "node \<Rightarrow> node" where
  "ex_keyed key = Program [ExpressionStatement (dot (index (Identifier ''map'') key) ''foo'')]"

definition enum_member_type :: ts_type where
  "enum_member_type =
     TsType False True False False None (Some (Some [TsDeclaration True True]))
       False False NoConstraint 0"

definition numeric_enum_member_type :: ts_type where
  "numeric_enum_member_type =
     TsType False True True False None (Some (Some [TsDeclaration True True]))
       False False NoConstraint 0"

text \<open>
  The number literal types \<^verbatim>\<open>0\<close> and \<^verbatim>\<open>1\<close> (alike for what the rule asks of them)
  and their union \<^verbatim>\<open>0 | 1\<close>.
\<close>

definition number_literal_type :: ts_type where
  "number_literal_type = TsType False False True False None None False False NoConstraint 0"

definition number_union_type :: ts_type where
  "number_union_type =
     TsType False False False False (Some [number_literal_type, number_literal_type]) None
       False False NoConstraint 0"

definition record_type :: ts_type where
  "record_type = TsType False False False False None None False False NoConstraint 2"

definition typed_checker :: "ts_type \<Rightarrow> ts_type \<Rightarrow> checker" where
  "typed_checker objectType indexType =
     \<lparr>getTypeAtLocation = (\<lambda>n. if n = 0 then Inr objectType else Inr indexType)\<rparr>"

definition typed :: "ts_type \<Rightarrow> ts_type \<Rightarrow> services" where
  "typed objectType indexType =
     \<lparr>getTypeChecker = Inr (typed_checker objectType indexType),
      esTreeNodeToTSNodeMap_get = (\<lambda>r. Inr (Some (ElementAccessExpression 0 1)))\<rparr>"

text \<open>Parser services whose type queries throw.\<close>

definition throwing :: services where
  "throwing =
     \<lparr>getTypeChecker = Inr \<lparr>getTypeAtLocation = (\<lambda>n. Inl Thrown)\<rparr>,
      esTreeNodeToTSNodeMap_get = (\<lambda>r. Inr (Some (ElementAccessExpression 0 1)))\<rparr>"

section \<open>Evaluation of the definitions\<close>

lemma nth_opt_Cons: "nth_opt (x # xs) i = (if i = 0 then Some x else nth_opt xs (i - 1))"
  by (cases i) simp_all

lemmas rule_defs =
  nth_opt_Cons get_def child_def isArrayIndexAccess_def truthy_def String_def value_is_null_def
  isDescendant_def getForLoopArrayInfo_def isInsideSafeForLoop_def
  isSafeInLogicalAnd_def isNullishCoalescing_def isSafeInConditional_def
  checkNodeSafety_def isInsideNullCheck_def hasOptionalChaining_def isBinaryNullCheck_def
  isBinaryNullCheckForExpression_def isInsideIfConsequent_def
  isInsideIfConsequentExpression_def isInsideLogicalAndRight_def
  isInsideLogicalAndRightExpression_def parent_of_def getStatements_def indexOf_def
  hasEarlyExitPatternForExpression_def isFalsyCheckExpression_def
  hasInitializationPatternForExpression_def hasEarlyExitPatternForVariable_def
  checkPreviousIfStatementsForExpression_def checkPreviousIfStatementsForVariable_def
  isInsideNullCheckedBlock_def isInsideNullCheckedBlockExpression_def
  isUnsafePropertyAccess_def isUnsafeFunctionCall_def getArrayIndexVariableName_def
  isEnumType_def isSafeKeyAccess_try_def isSafeKeyAccess_def create_services_def
  isArrayIndexVariable_def onVariableDeclarator_def onMemberExpression_def
  onMemberExpressionOfIdentifier_def onCallExpressionOfIdentifier_def visit_def run_def
  analyse_def

lemmas spec_defs =
  is_direct_use_def is_subject_def is_nullish_literal_def within_def
  spec_optional_chaining_def spec_short_circuit_and_def spec_nullish_coalescing_def
  spec_guarded_branch_def spec_ternary_branch_def preceding_statements_def
  spec_early_exit_def spec_lazy_initialization_def is_length_of_def spec_loop_test_def
  spec_loop_bound_def spec_guard_applies_def reports_at_def is_null_valued_def
  is_reversed_comparison_def only_reversed_tests_def flow_based_guard_rules_def

lemmas example_defs =
  arr0_def dot_def index_def ex_unguarded_def use_unguarded_def order_unguarded_def
  ex_if_def use_if_def order_if_flag_def reversed_test_def order_if_reversed_def
  ex_if_variable_def ex_reversed_variable_def ex_closure_def closure_read_def
  closure_scopes_def number_literal_type_def number_union_type_def item_declarator_def item_read_def item_scopes_def ex_for_def
  use_for_def lt_length_def le_length_def this_items_def item_read_after_exit_def
  ex_negated_exit_def use_negated_exit_def ex_negated_exit_variable_def ex_shadow_def
  fare_declarator_def fare_read_def shadow_scopes_def ex_string_key_def ex_keyed_def
  enum_member_type_def numeric_enum_member_type_def record_type_def typed_checker_def
  typed_def throwing_def

section \<open>References and handlers\<close>

lemma node_at_append:
  "node_at n (xs @ ys) = (case node_at n xs of None \<Rightarrow> None | Some m \<Rightarrow> node_at m ys)"
  by (induction xs arbitrary: n) (auto split: option.splits)

lemma get_Cons:
  "get root (f # p) = (case get root p of None \<Rightarrow> None | Some n \<Rightarrow> child n f)"
  by (simp add: get_def node_at_append split: option.splits)

lemma get_object_of_member:
  "get root p = Some (MemberExpression obj prop computed optional) \<Longrightarrow> get root (F_object # p) = Some obj"
  by (simp add: get_Cons child_def)

lemma get_callee_of_call:
  "get root p = Some (CallExpression callee args optional) \<Longrightarrow> get root (F_callee # p) = Some callee"
  by (simp add: get_Cons child_def)

lemma isArrayIndexAccess_iff:
  "isArrayIndexAccess (MemberExpression obj property computed optional) \<longleftrightarrow>
     computed \<and> ((\<exists>v. property = Literal (NumberLit v)) \<or> (\<exists>name. property = Identifier name)
                \<or> (\<exists>operator l r. property = BinaryExpression operator l r))"
proof (cases property)
  case (Literal v)
  then show ?thesis by (cases v) (simp_all add: isArrayIndexAccess_def)
qed (simp_all add: isArrayIndexAccess_def)

lemma onMemberExpression_not_member:
  assumes "\<And>obj property computed optional.
             get root node \<noteq> Some (MemberExpression obj property computed optional)"
  shows "onMemberExpression root services node = []"
proof (cases "get root node")
  case None
  then show ?thesis by (simp add: onMemberExpression_def)
next
  case (Some n)
  show ?thesis
  proof (cases n)
    case (MemberExpression a b c d)
    with Some assms [of a b c d] show ?thesis by simp
  qed (simp_all add: onMemberExpression_def Some)
qed

lemma onMemberExpression_subset:
  assumes "d \<in> set (onMemberExpression root services node)"
  shows "d = Diagnostic node ''issue:unsafe-access'' \<and>
     (\<exists>obj property computed optional.
         get root node = Some (MemberExpression obj property computed optional)
         \<and> isArrayIndexAccess (MemberExpression obj property computed optional))"
proof -
  from assms onMemberExpression_not_member [of root node services]
  obtain obj property computed optional where
    g: "get root node = Some (MemberExpression obj property computed optional)"
    by fastforce
  from assms show ?thesis
    by (simp add: onMemberExpression_def g Let_def split: if_splits)
qed

lemma onMemberExpressionOfIdentifier_not_member:
  assumes "\<And>name property computed optional.
             get root node \<noteq> Some (MemberExpression (Identifier name) property computed optional)"
  shows "onMemberExpressionOfIdentifier root getScope decls node = []"
proof (cases "get root node")
  case None
  then show ?thesis by (simp add: onMemberExpressionOfIdentifier_def)
next
  case (Some n)
  show ?thesis
  proof (cases n)
    case (MemberExpression a b c d)
    show ?thesis
    proof (cases a)
      case (Identifier name)
      with Some MemberExpression assms [of name b c d] show ?thesis by simp
    qed (simp_all add: onMemberExpressionOfIdentifier_def Some MemberExpression)
  qed (simp_all add: onMemberExpressionOfIdentifier_def Some)
qed

lemma onMemberExpressionOfIdentifier_subset:
  assumes "d \<in> set (onMemberExpressionOfIdentifier root getScope decls node)"
  shows "\<exists>name. d = Diagnostic (F_object # node) ''issue:unsafe-access''
           \<and> get root (F_object # node) = Some (Identifier name)"
proof -
  from assms onMemberExpressionOfIdentifier_not_member [of root node getScope decls]
  obtain name property computed optional where
    g: "get root node = Some (MemberExpression (Identifier name) property computed optional)"
    by fastforce
  from assms show ?thesis
    by (simp add: onMemberExpressionOfIdentifier_def g Let_def get_object_of_member [OF g]
        split: if_splits)
qed

lemma onCallExpressionOfIdentifier_not_call:
  assumes "\<And>name args optional.
             get root node \<noteq> Some (CallExpression (Identifier name) args optional)"
  shows "onCallExpressionOfIdentifier root getScope decls node = []"
proof (cases "get root node")
  case None
  then show ?thesis by (simp add: onCallExpressionOfIdentifier_def)
next
  case (Some n)
  show ?thesis
  proof (cases n)
    case (CallExpression a b c)
    show ?thesis
    proof (cases a)
      case (Identifier name)
      with Some CallExpression assms [of name b c] show ?thesis by simp
    qed (simp_all add: onCallExpressionOfIdentifier_def Some CallExpression)
  qed (simp_all add: onCallExpressionOfIdentifier_def Some)
qed

lemma onCallExpressionOfIdentifier_subset:
  assumes "d \<in> set (onCallExpressionOfIdentifier root getScope decls node)"
  shows "\<exists>name. d = Diagnostic (F_callee # node) ''issue:unsafe-access''
           \<and> get root (F_callee # node) = Some (Identifier name)"
proof -
  from assms onCallExpressionOfIdentifier_not_call [of root node getScope decls]
  obtain name args optional where
    g: "get root node = Some (CallExpression (Identifier name) args optional)"
    by fastforce
  from assms show ?thesis
    by (simp add: onCallExpressionOfIdentifier_def g Let_def get_callee_of_call [OF g]
        split: if_splits)
qed


subsection \<open>What one visit adds\<close>

lemma visit_cases:
  obtains
    (declarator) ident init where "get root r = Some (VariableDeclarator ident init)"
      "visit root services getScope st r =
         st\<lparr>arrayIndexDeclarations :=
              onVariableDeclarator root services (arrayIndexDeclarations st) r\<rparr>"
  | (member) obj property computed optional where
      "get root r = Some (MemberExpression obj property computed optional)"
      "visit root services getScope st r =
         st\<lparr>reports :=
              reports st @ onMemberExpression root services r
              @ onMemberExpressionOfIdentifier root getScope (arrayIndexDeclarations st) r\<rparr>"
  | (call) callee args optional where
      "get root r = Some (CallExpression callee args optional)"
      "visit root services getScope st r =
         st\<lparr>reports :=
              reports st
              @ onCallExpressionOfIdentifier root getScope (arrayIndexDeclarations st) r\<rparr>"
  | (other) "visit root services getScope st r = st"
proof (cases "get root r")
  case None
  then have "visit root services getScope st r = st" by (simp add: visit_def)
  then show ?thesis by (rule other)
next
  case (Some n)
  show ?thesis
  proof (cases n)
    case (VariableDeclarator ident init)
    with Some show ?thesis by (intro declarator [of ident init]) (simp_all add: visit_def)
  next
    case (MemberExpression obj property computed optional)
    with Some show ?thesis
      by (intro member [of obj property computed optional]) (simp_all add: visit_def)
  next
    case (CallExpression callee args optional)
    with Some show ?thesis
      by (intro call [of callee args optional]) (simp_all add: visit_def)
  qed (use Some in \<open>simp_all add: visit_def other\<close>)
qed

lemma onVariableDeclarator_adds:
  assumes "x \<in> onVariableDeclarator root services decls r"
  shows "x \<in> decls \<or>
         (x = r \<and> (\<exists>ident obj property computed optional.
            get root r =
              Some (VariableDeclarator ident
                      (Some (MemberExpression obj property computed optional)))
            \<and> isArrayIndexAccess (MemberExpression obj property computed optional)))"
proof (cases "get root r")
  case None
  with assms show ?thesis by (simp add: onVariableDeclarator_def)
next
  case (Some n)
  show ?thesis
  proof (cases n)
    case (VariableDeclarator ident init)
    show ?thesis
    proof (cases init)
      case None
      with assms Some VariableDeclarator show ?thesis by (simp add: onVariableDeclarator_def)
    next
      case (Some m)
      note init = this
      show ?thesis
      proof (cases m)
        case (MemberExpression obj property computed optional)
        with assms \<open>get root r = Some n\<close> VariableDeclarator init show ?thesis
          by (auto simp: onVariableDeclarator_def split: if_splits)
      qed (use assms \<open>get root r = Some n\<close> VariableDeclarator init in
            \<open>simp_all add: onVariableDeclarator_def\<close>)
    qed
  qed (use assms Some in \<open>simp_all add: onVariableDeclarator_def\<close>)
qed

text \<open>Every registered declarator is initialised by a dynamic-key access.\<close>

lemma visit_declarations:
  assumes "x \<in> arrayIndexDeclarations (visit root services getScope st r)"
  shows "x \<in> arrayIndexDeclarations st \<or>
         (\<exists>ident obj property computed optional.
            get root x =
              Some (VariableDeclarator ident
                      (Some (MemberExpression obj property computed optional)))
            \<and> isArrayIndexAccess (MemberExpression obj property computed optional))"
proof (cases rule: visit_cases [of root r services getScope st])
  case (declarator ident init)
  with assms onVariableDeclarator_adds [of x root services "arrayIndexDeclarations st" r]
  show ?thesis by auto
qed (use assms in simp_all)

lemma run_declarations:
  assumes "x \<in> arrayIndexDeclarations (foldl (visit root services getScope) st order)"
  shows "x \<in> arrayIndexDeclarations st \<or>
         (\<exists>ident obj property computed optional.
            get root x =
              Some (VariableDeclarator ident
                      (Some (MemberExpression obj property computed optional)))
            \<and> isArrayIndexAccess (MemberExpression obj property computed optional))"
  using assms
proof (induction order arbitrary: st)
  case Nil
  then show ?case by simp
next
  case (Cons r order)
  from Cons.IH [of "visit root services getScope st r"] Cons.prems
    visit_declarations [of x root services getScope st r]
  show ?case by auto
qed

text \<open>
  Every diagnostic is anchored at a dynamic-key access or at an identifier.
\<close>

lemma visit_reports:
  assumes "d \<in> set (reports (visit root services getScope st r))"
  shows "d \<in> set (reports st) \<or>
         (\<exists>obj property computed optional.
            get root (diag_node d) = Some (MemberExpression obj property computed optional)
            \<and> isArrayIndexAccess (MemberExpression obj property computed optional))
         \<or> (\<exists>name. get root (diag_node d) = Some (Identifier name))"
proof (cases rule: visit_cases [of root r services getScope st])
  case (member obj property computed optional)
  with assms onMemberExpression_subset [of d root services r]
    onMemberExpressionOfIdentifier_subset [of d root getScope "arrayIndexDeclarations st" r]
  show ?thesis by auto
next
  case (call callee args optional)
  with assms onCallExpressionOfIdentifier_subset [of d root getScope "arrayIndexDeclarations st" r]
  show ?thesis by auto
qed (use assms in simp_all)

lemma run_reports:
  assumes "d \<in> set (reports (foldl (visit root services getScope) st order))"
  shows "d \<in> set (reports st) \<or>
         (\<exists>obj property computed optional.
            get root (diag_node d) = Some (MemberExpression obj property computed optional)
            \<and> isArrayIndexAccess (MemberExpression obj property computed optional))
         \<or> (\<exists>name. get root (diag_node d) = Some (Identifier name))"
  using assms
proof (induction order arbitrary: st)
  case Nil
  then show ?case by simp
next
  case (Cons r order)
  from Cons.IH [of "visit root services getScope st r"] Cons.prems
    visit_reports [of d root services getScope st r]
  show ?case by auto
qed

section \<open>The classifier invariant\<close>

text \<open>
  Claim C8. A member access that is not computed, or whose key is a string literal, is
  not a dynamic-key access for the classifier; in no run of the analysis is a declarator
  initialised by it registered as a binding, and no diagnostic of the run is anchored at
  it. The classifier accepts exactly the computed accesses whose key is a numeric
  literal, an identifier or a binary expression.
\<close>

theorem static_key_access_is_never_partial:
  assumes node: "get root node = Some (MemberExpression obj property computed optional)"
    and static: "\<not> computed \<or> (\<exists>s. property = Literal (StringLit s))"
  shows "\<not> isArrayIndexAccess (MemberExpression obj property computed optional)
         \<and> (\<forall>declarator. F_init # declarator = node \<longrightarrow>
               declarator \<notin> arrayIndexDeclarations (run root ps getScope order))
         \<and> (\<forall>d \<in> set (analyse root ps getScope order). diag_node d \<noteq> node)
         \<and> (isArrayIndexAccess (MemberExpression obj' property' computed' optional') \<longleftrightarrow>
              computed' \<and>
              ((\<exists>v. property' = Literal (NumberLit v)) \<or> (\<exists>name. property' = Identifier name)
               \<or> (\<exists>operator l r. property' = BinaryExpression operator l r)))"
proof -
  from static have not_dynamic:
    "\<not> isArrayIndexAccess (MemberExpression obj property computed optional)"
    by (auto simp: isArrayIndexAccess_iff)
  have not_registered: "declarator \<notin> arrayIndexDeclarations (run root ps getScope order)"
    if "F_init # declarator = node" for declarator
  proof
    assume "declarator \<in> arrayIndexDeclarations (run root ps getScope order)"
    then obtain ident obj' property' computed' optional' where
      d: "get root declarator =
            Some (VariableDeclarator ident
                    (Some (MemberExpression obj' property' computed' optional')))"
      and dyn: "isArrayIndexAccess (MemberExpression obj' property' computed' optional')"
      using run_declarations [of declarator root "create_services ps" getScope
          "\<lparr>arrayIndexDeclarations = {}, reports = []\<rparr>" order]
      by (auto simp: run_def)
    from d have "get root (F_init # declarator) =
        Some (MemberExpression obj' property' computed' optional')"
      by (simp add: get_Cons child_def)
    with that node dyn not_dynamic show False by simp
  qed
  have not_reported: "diag_node d \<noteq> node" if "d \<in> set (analyse root ps getScope order)" for d
  proof
    assume "diag_node d = node"
    with that node not_dynamic
      run_reports [of d root "create_services ps" getScope
        "\<lparr>arrayIndexDeclarations = {}, reports = []\<rparr>" order]
    show False by (auto simp: analyse_def run_def)
  qed
  from not_dynamic not_registered not_reported show ?thesis
    by (simp add: isArrayIndexAccess_iff)
qed

theorem static_key_access_is_never_partial_witness:
  "get ex_string_key [F_init, F_declarations 0, F_body 0]
     = Some (MemberExpression (Identifier ''obj'') (Literal (StringLit ''foo'')) True False)
   \<and> \<not> isArrayIndexAccess
         (MemberExpression (Identifier ''obj'') (Literal (StringLit ''foo'')) True False)
   \<and> [F_declarations 0, F_body 0]
       \<notin> arrayIndexDeclarations
           (run ex_string_key (Inl Thrown) (\<lambda>r. []) [[F_declarations 0, F_body 0]])
   \<and> Diagnostic [F_init, F_declarations 0, F_body 0] ''issue:unsafe-access''
       \<notin> set (analyse ex_string_key (Inl Thrown) (\<lambda>r. [])
                [[F_declarations 0, F_body 0], [F_init, F_declarations 0, F_body 0]])"
proof -
  have g: "get ex_string_key [F_init, F_declarations 0, F_body 0]
     = Some (MemberExpression (Identifier ''obj'') (Literal (StringLit ''foo'')) True False)"
    by (simp add: example_defs rule_defs)
  have s: "\<not> True \<or> (\<exists>s. Literal (StringLit ''foo'') = Literal (StringLit s))"
    by simp
  from static_key_access_is_never_partial [OF g s, of "Inl Thrown" "\<lambda>r. []"
      "[[F_declarations 0, F_body 0]]"]
    static_key_access_is_never_partial [OF g s, of "Inl Thrown" "\<lambda>r. []"
      "[[F_declarations 0, F_body 0], [F_init, F_declarations 0, F_body 0]]"]
  show ?thesis using g by fastforce
qed

section \<open>The type-based exemption\<close>

lemma isSafeKeyAccess_None [simp]: "\<not> isSafeKeyAccess root node None"
  by (simp add: isSafeKeyAccess_def)

text \<open>The handlers depend on the parser services only through the oracle's answer.\<close>

lemma onMemberExpression_services:
  assumes "isSafeKeyAccess root node services = isSafeKeyAccess root node services'"
  shows "onMemberExpression root services node = onMemberExpression root services' node"
  unfolding onMemberExpression_def assms by (rule refl)

lemma onVariableDeclarator_services:
  assumes "isSafeKeyAccess root (F_init # declarator) services
           = isSafeKeyAccess root (F_init # declarator) services'"
  shows "onVariableDeclarator root services decls declarator
         = onVariableDeclarator root services' decls declarator"
  unfolding onVariableDeclarator_def assms by (rule refl)

lemma isSafeKeyAccess_key:
  assumes "isSafeKeyAccess root node services"
  shows "\<exists>obj name optional.
           get root node = Some (MemberExpression obj (Identifier name) True optional)"
proof (cases services)
  case None
  with assms show ?thesis by simp
next
  case (Some sv)
  show ?thesis
  proof (cases "get root node")
    case None
    with assms Some show ?thesis by (simp add: isSafeKeyAccess_def)
  next
    case get: (Some n)
    show ?thesis
    proof (cases n)
      case (MemberExpression obj property computed optional)
      show ?thesis
      proof (cases property)
        case (Identifier name)
        with assms Some get MemberExpression show ?thesis
          by (simp add: isSafeKeyAccess_def split: if_splits)
      qed (use assms Some get MemberExpression in
            \<open>simp_all add: isSafeKeyAccess_def split: if_splits\<close>)
    qed (use assms Some get in \<open>simp_all add: isSafeKeyAccess_def\<close>)
  qed
qed

lemma onMemberExpression_flow_based_guard_rules:
  assumes "get root node = Some (MemberExpression obj property computed optional)"
    and "isArrayIndexAccess (MemberExpression obj property computed optional)"
    and "\<not> truthy (getArrayIndexVariableName root node)"
    and "\<not> isSafeKeyAccess root node services"
  shows "onMemberExpression root services node = flow_based_guard_rules root node"
  using assms
  by (simp add: onMemberExpression_def flow_based_guard_rules_def Let_def
      del: getArrayIndexAccessKey.simps)

lemma onMemberExpression_not_dynamic:
  assumes "get root node = Some (MemberExpression obj property computed optional)"
    and "\<not> isArrayIndexAccess (MemberExpression obj property computed optional)"
  shows "onMemberExpression root services node = []"
  using assms by (simp add: onMemberExpression_def)

text \<open>
  Claim C9, amended. The oracle exempts an access only if it is computed and its key is
  a bare identifier; an access of any other form is not exempt whatever the type checker
  says, and the handlers treat it as they do without type information. Of these
  accesses, one keyed by a numeric literal or a binary expression (a dynamic-key access
  that does not initialise a variable) falls through to the flow-based guard rules; one
  keyed by any other form (a string literal, a member expression such as \<^verbatim>\<open>Enum.A\<close>),
  or not computed, is no dynamic-key access: the handler returns before any guard rule
  and reports nothing.
\<close>

theorem oracle_exempts_only_identifier_keys:
  assumes "\<forall>obj name optional.
             get root node \<noteq> Some (MemberExpression obj (Identifier name) True optional)"
  shows "\<not> isSafeKeyAccess root node services
         \<and> onMemberExpression root services node = onMemberExpression root None node
         \<and> (F_init # declarator = node \<longrightarrow>
              onVariableDeclarator root services decls declarator
              = onVariableDeclarator root None decls declarator)
         \<and> (get root node = Some (MemberExpression obj property computed optional)
              \<and> isArrayIndexAccess (MemberExpression obj property computed optional)
              \<and> \<not> truthy (getArrayIndexVariableName root node) \<longrightarrow>
              onMemberExpression root services node = flow_based_guard_rules root node)
         \<and> (get root node = Some (MemberExpression obj property computed optional)
              \<and> \<not> isArrayIndexAccess (MemberExpression obj property computed optional)
              \<longrightarrow> onMemberExpression root services node = [])"
proof -
  from assms isSafeKeyAccess_key [of root node services]
  have not_exempt: "\<not> isSafeKeyAccess root node services" by blast
  then have same: "isSafeKeyAccess root node services = isSafeKeyAccess root node None"
    by simp
  have handlers:
    "onMemberExpression root services node = onMemberExpression root None node"
    "F_init # declarator = node \<longrightarrow>
       onVariableDeclarator root services decls declarator
       = onVariableDeclarator root None decls declarator"
    using onMemberExpression_services [OF same]
      onVariableDeclarator_services [of root declarator services None decls] same
    by auto
  have falls_through:
    "get root node = Some (MemberExpression obj property computed optional)
     \<and> isArrayIndexAccess (MemberExpression obj property computed optional)
     \<and> \<not> truthy (getArrayIndexVariableName root node) \<longrightarrow>
       onMemberExpression root services node = flow_based_guard_rules root node"
    using onMemberExpression_flow_based_guard_rules [of root node obj property computed
        optional services] not_exempt
    by blast
  have returns:
    "get root node = Some (MemberExpression obj property computed optional)
     \<and> \<not> isArrayIndexAccess (MemberExpression obj property computed optional)
     \<longrightarrow> onMemberExpression root services node = []"
    using onMemberExpression_not_dynamic [of root node obj property computed optional services]
    by blast
  from not_exempt handlers falls_through returns show ?thesis by (intro conjI)
qed

theorem oracle_exempts_only_identifier_keys_witness:
  "get (ex_keyed (Literal (NumberLit ''0''))) use_unguarded
     = Some (index (Identifier ''map'') (Literal (NumberLit ''0'')))
   \<and> isSafeKeyAccess (ex_keyed (Identifier ''key'')) use_unguarded
        (Some (typed record_type enum_member_type))
   \<and> \<not> isSafeKeyAccess (ex_keyed (Literal (NumberLit ''0''))) use_unguarded
          (Some (typed record_type enum_member_type))
   \<and> onMemberExpression (ex_keyed (Literal (NumberLit ''0'')))
        (Some (typed record_type enum_member_type)) use_unguarded
      = flow_based_guard_rules (ex_keyed (Literal (NumberLit ''0''))) use_unguarded
   \<and> flow_based_guard_rules (ex_keyed (Literal (NumberLit ''0''))) use_unguarded
      = [Diagnostic use_unguarded ''issue:unsafe-access'']
   \<and> onMemberExpression (ex_keyed (dot (Identifier ''Enum'') ''A''))
        (Some (typed record_type enum_member_type)) use_unguarded = []"
proof -
  have g: "get (ex_keyed (Literal (NumberLit ''0''))) use_unguarded
     = Some (MemberExpression (Identifier ''map'') (Literal (NumberLit ''0'')) True False)"
    by (simp add: example_defs rule_defs)
  then have h: "\<forall>obj name optional.
      get (ex_keyed (Literal (NumberLit ''0''))) use_unguarded
      \<noteq> Some (MemberExpression obj (Identifier name) True optional)"
    by simp
  have d: "isArrayIndexAccess
      (MemberExpression (Identifier ''map'') (Literal (NumberLit ''0'')) True False)"
    by (simp add: rule_defs)
  have v: "\<not> truthy (getArrayIndexVariableName (ex_keyed (Literal (NumberLit ''0'')))
      use_unguarded)"
    by (simp add: example_defs rule_defs)
  have g': "get (ex_keyed (dot (Identifier ''Enum'') ''A'')) use_unguarded
     = Some (MemberExpression (Identifier ''map'')
               (MemberExpression (Identifier ''Enum'') (Identifier ''A'') False False)
               True False)"
    by (simp add: example_defs rule_defs)
  then have h': "\<forall>obj name optional.
      get (ex_keyed (dot (Identifier ''Enum'') ''A'')) use_unguarded
      \<noteq> Some (MemberExpression obj (Identifier name) True optional)"
    by simp
  have d': "\<not> isArrayIndexAccess
      (MemberExpression (Identifier ''map'')
         (MemberExpression (Identifier ''Enum'') (Identifier ''A'') False False) True False)"
    by (simp add: rule_defs)
  have e: "isSafeKeyAccess (ex_keyed (Identifier ''key'')) use_unguarded
        (Some (typed record_type enum_member_type))"
    by (simp add: example_defs rule_defs)
  have f: "flow_based_guard_rules (ex_keyed (Literal (NumberLit ''0''))) use_unguarded
      = [Diagnostic use_unguarded ''issue:unsafe-access'']"
    by (simp add: example_defs rule_defs spec_defs)
  note numeric = oracle_exempts_only_identifier_keys [OF h,
      where services = "Some (typed record_type enum_member_type)"
        and obj = "Identifier ''map''" and property = "Literal (NumberLit ''0'')"
        and computed = True and optional = False]
  note member = oracle_exempts_only_identifier_keys [OF h',
      where services = "Some (typed record_type enum_member_type)"
        and obj = "Identifier ''map''"
        and property = "MemberExpression (Identifier ''Enum'') (Identifier ''A'') False False"
        and computed = True and optional = False]
  note not_exempt = numeric [THEN conjunct1]
  note falls_through =
    numeric [THEN conjunct2, THEN conjunct2, THEN conjunct2, THEN conjunct1, rule_format,
      OF conjI [OF g conjI [OF d v]]]
  note returns =
    member [THEN conjunct2, THEN conjunct2, THEN conjunct2, THEN conjunct2, rule_format,
      OF conjI [OF g' d']]
  from not_exempt falls_through returns g e f show ?thesis by (simp add: index_def)
qed

text \<open>
  Claim C9 as stated fails: in \<^verbatim>\<open>map[Enum.A].foo;\<close> the key is a member expression,
  the oracle does not exempt the access and no guard applies to it; the flow-based guard
  rules would report it, but the handler returns before them and the analysis reports
  nothing.
\<close>

theorem member_key_counterexample:
  "get (ex_keyed (dot (Identifier ''Enum'') ''A'')) use_unguarded
     = Some (index (Identifier ''map'') (dot (Identifier ''Enum'') ''A''))
   \<and> \<not> isSafeKeyAccess (ex_keyed (dot (Identifier ''Enum'') ''A'')) use_unguarded
          (Some (typed record_type enum_member_type))
   \<and> is_direct_use (ex_keyed (dot (Identifier ''Enum'') ''A'')) use_unguarded
   \<and> \<not> spec_guard_applies (ex_keyed (dot (Identifier ''Enum'') ''A'')) use_unguarded
   \<and> flow_based_guard_rules (ex_keyed (dot (Identifier ''Enum'') ''A'')) use_unguarded
      = [Diagnostic use_unguarded ''issue:unsafe-access'']
   \<and> analyse (ex_keyed (dot (Identifier ''Enum'') ''A''))
        (Inr \<lparr>has_program = True, typed_services = typed record_type enum_member_type\<rparr>)
        (\<lambda>r. [])
        (order_unguarded
         @ [F_object # F_property # use_unguarded, F_property # F_property # use_unguarded])
      = []"
  by (simp add: example_defs rule_defs spec_defs)

section \<open>Failures of the type checker\<close>

text \<open>
  The \<^verbatim>\<open>try\<close> block throws exactly when one of its calls into the parser services
  throws: \<^verbatim>\<open>getTypeChecker\<close>, the lookup of the TypeScript node, or one of the two
  \<^verbatim>\<open>getTypeAtLocation\<close> queries.
\<close>

lemma isSafeKeyAccess_try_throws:
  "isl (isSafeKeyAccess_try sv node) \<longleftrightarrow>
     isl (getTypeChecker sv)
     \<or> (\<exists>checker. getTypeChecker sv = Inr checker
          \<and> (isl (esTreeNodeToTSNodeMap_get sv node)
              \<or> (\<exists>expression argumentExpression.
                    esTreeNodeToTSNodeMap_get sv node
                      = Inr (Some (ElementAccessExpression expression argumentExpression))
                    \<and> (isl (getTypeAtLocation checker expression)
                        \<or> isl (getTypeAtLocation checker argumentExpression)))))"
proof (cases "getTypeChecker sv")
  case (Inl e)
  then show ?thesis by (simp add: isSafeKeyAccess_try_def)
next
  case checker: (Inr checker)
  show ?thesis
  proof (cases "esTreeNodeToTSNodeMap_get sv node")
    case (Inl e)
    with checker show ?thesis by (simp add: isSafeKeyAccess_try_def)
  next
    case tsNode: (Inr tsNode)
    show ?thesis
    proof (cases tsNode)
      case None
      with checker tsNode show ?thesis by (simp add: isSafeKeyAccess_try_def)
    next
      case (Some t)
      show ?thesis
      proof (cases t)
        case (ElementAccessExpression expression argumentExpression)
        with checker tsNode Some show ?thesis
          by (cases "getTypeAtLocation checker expression";
              cases "getTypeAtLocation checker argumentExpression")
             (simp_all add: isSafeKeyAccess_try_def)
      next
        case OtherTsNode
        with checker tsNode Some show ?thesis by (simp add: isSafeKeyAccess_try_def)
      qed
    qed
  qed
qed

lemma isSafeKeyAccess_thrown:
  assumes "isl (isSafeKeyAccess_try sv node)"
  shows "\<not> isSafeKeyAccess root node (Some sv)"
proof (cases "get root node")
  case None
  then show ?thesis by (simp add: isSafeKeyAccess_def)
next
  case (Some n)
  show ?thesis
  proof (cases n)
    case (MemberExpression obj property computed optional)
    show ?thesis
    proof (cases property)
      case (Identifier name)
      with assms Some MemberExpression show ?thesis
        by (cases "isSafeKeyAccess_try sv node") (simp_all add: isSafeKeyAccess_def)
    qed (use Some MemberExpression in \<open>simp_all add: isSafeKeyAccess_def\<close>)
  qed (use Some in \<open>simp_all add: isSafeKeyAccess_def\<close>)
qed

text \<open>
  Claim C5. When the type-checking capability is unavailable (\<^verbatim>\<open>getParserServices\<close>
  throws or there is no program, so that \<open>services\<close> is null), or a query of the type
  information of an access throws, the oracle answers ``not exempt'' for the access and
  the handlers do at it what they do without type information. The answer is a boolean:
  \<open>isSafeKeyAccess\<close> has no exceptional result to hand to its caller.
\<close>

theorem oracle_failure_is_not_exempt:
  assumes "services = None \<or> (\<exists>sv. services = Some sv \<and> isl (isSafeKeyAccess_try sv node))"
  shows "\<not> isSafeKeyAccess root node services
         \<and> onMemberExpression root services node = onMemberExpression root None node
         \<and> (F_init # declarator = node \<longrightarrow>
              onVariableDeclarator root services decls declarator
              = onVariableDeclarator root None decls declarator)
         \<and> create_services (Inl e) = None
         \<and> create_services (Inr \<lparr>has_program = False, typed_services = sv'\<rparr>) = None"
proof -
  from assms isSafeKeyAccess_thrown [of _ node root]
  have not_exempt: "\<not> isSafeKeyAccess root node services" by auto
  then have same: "isSafeKeyAccess root node services = isSafeKeyAccess root node None"
    by simp
  from not_exempt onMemberExpression_services [OF same]
    onVariableDeclarator_services [of root declarator services None decls]
  show ?thesis by (auto simp: create_services_def)
qed

theorem oracle_failure_is_not_exempt_witness:
  "isl (isSafeKeyAccess_try throwing use_unguarded)
   \<and> \<not> isSafeKeyAccess (ex_keyed (Identifier ''key'')) use_unguarded (Some throwing)
   \<and> onMemberExpression (ex_keyed (Identifier ''key'')) (Some throwing) use_unguarded
      = [Diagnostic use_unguarded ''issue:unsafe-access'']
   \<and> onMemberExpression (ex_keyed (Identifier ''key''))
        (Some (typed record_type enum_member_type)) use_unguarded = []"
proof -
  have t: "isl (isSafeKeyAccess_try throwing use_unguarded)"
    by (simp add: example_defs rule_defs)
  then have h: "Some throwing = None
      \<or> (\<exists>sv. Some throwing = Some sv \<and> isl (isSafeKeyAccess_try sv use_unguarded))"
    by simp
  have n: "onMemberExpression (ex_keyed (Identifier ''key'')) None use_unguarded
      = [Diagnostic use_unguarded ''issue:unsafe-access'']"
    by (simp add: example_defs rule_defs)
  have e: "onMemberExpression (ex_keyed (Identifier ''key''))
        (Some (typed record_type enum_member_type)) use_unguarded = []"
    by (simp add: example_defs rule_defs)
  from oracle_failure_is_not_exempt [OF h, of "ex_keyed (Identifier ''key'')"] t n e
  show ?thesis by simp
qed

section \<open>The order of the exemption policy\<close>

text \<open>
  Claim C6, amended. When the object's type is an array or tuple type, or the key's type
  is \<^verbatim>\<open>number\<close> or a single number literal type (a numeric enum member included),
  \<open>isTypeSafeIndex\<close> answers ``not exempt'', whatever else holds of the two types (enum
  flags, union members, string literal, base constraint); and so does the oracle for an
  access with these types. A key whose type is a union of number literal types is
  exempt on an object that is neither an array nor a tuple.
\<close>

theorem array_or_numeric_key_is_not_exempt:
  assumes "isArrayType objectType \<or> isTupleType objectType
           \<or> flag_Number indexType \<or> isNumberLiteral indexType"
  shows "\<not> isTypeSafeIndex indexType objectType
         \<and> (getTypeChecker sv = Inr checker
              \<and> esTreeNodeToTSNodeMap_get sv node
                  = Inr (Some (ElementAccessExpression expression argumentExpression))
              \<and> getTypeAtLocation checker expression = Inr objectType
              \<and> getTypeAtLocation checker argumentExpression = Inr indexType
              \<longrightarrow> \<not> isSafeKeyAccess root node (Some sv))
         \<and> (\<not> isArrayType objectType' \<and> \<not> isTupleType objectType'
              \<and> \<not> flag_Number indexType' \<and> \<not> isNumberLiteral indexType'
              \<and> union_types indexType' = Some members
              \<and> list_all isNumberLiteral members
              \<longrightarrow> isTypeSafeIndex indexType' objectType')"
proof -
  from assms have not_safe: "\<not> isTypeSafeIndex indexType objectType"
    by (cases indexType) auto
  have exempt_query: "getTypeChecker sv = Inr checker
      \<and> esTreeNodeToTSNodeMap_get sv node
          = Inr (Some (ElementAccessExpression expression argumentExpression))
      \<and> getTypeAtLocation checker expression = Inr objectType
      \<and> getTypeAtLocation checker argumentExpression = Inr indexType
      \<longrightarrow> \<not> isSafeKeyAccess root node (Some sv)"
  proof (intro impI notI, elim conjE)
    assume q: "getTypeChecker sv = Inr checker"
      "esTreeNodeToTSNodeMap_get sv node
         = Inr (Some (ElementAccessExpression expression argumentExpression))"
      "getTypeAtLocation checker expression = Inr objectType"
      "getTypeAtLocation checker argumentExpression = Inr indexType"
    assume safe: "isSafeKeyAccess root node (Some sv)"
    then obtain obj name optional where
      "get root node = Some (MemberExpression obj (Identifier name) True optional)"
      using isSafeKeyAccess_key by blast
    with safe q not_safe show False
      by (simp add: isSafeKeyAccess_def isSafeKeyAccess_try_def)
  qed
  have number_union: "\<not> isArrayType objectType' \<and> \<not> isTupleType objectType'
      \<and> \<not> flag_Number indexType' \<and> \<not> isNumberLiteral indexType'
      \<and> union_types indexType' = Some members
      \<and> list_all isNumberLiteral members
      \<longrightarrow> isTypeSafeIndex indexType' objectType'"
    by (cases indexType') (auto simp: list_all_iff)
  from not_safe exempt_query number_union show ?thesis by (intro conjI)
qed

theorem array_or_numeric_key_is_not_exempt_witness:
  "isEnumType numeric_enum_member_type
   \<and> isNumberLiteral numeric_enum_member_type
   \<and> \<not> isTypeSafeIndex numeric_enum_member_type record_type
   \<and> isTypeSafeIndex enum_member_type record_type
   \<and> \<not> isSafeKeyAccess (ex_keyed (Identifier ''key'')) use_unguarded
          (Some (typed record_type numeric_enum_member_type))"
proof -
  have h: "isArrayType record_type \<or> isTupleType record_type
      \<or> flag_Number numeric_enum_member_type \<or> isNumberLiteral numeric_enum_member_type"
    by (simp add: example_defs)
  have e: "isEnumType numeric_enum_member_type" "isTypeSafeIndex enum_member_type record_type"
    by (simp_all add: example_defs rule_defs)
  have q: "getTypeChecker (typed record_type numeric_enum_member_type)
           = Inr (typed_checker record_type numeric_enum_member_type)
      \<and> esTreeNodeToTSNodeMap_get (typed record_type numeric_enum_member_type) use_unguarded
          = Inr (Some (ElementAccessExpression 0 1))
      \<and> getTypeAtLocation (typed_checker record_type numeric_enum_member_type) 0
          = Inr record_type
      \<and> getTypeAtLocation (typed_checker record_type numeric_enum_member_type) 1
          = Inr numeric_enum_member_type"
    by (simp add: typed_def typed_checker_def)
  note facts = array_or_numeric_key_is_not_exempt [OF h,
      where sv = "typed record_type numeric_enum_member_type"
        and checker = "typed_checker record_type numeric_enum_member_type"
        and node = use_unguarded and expression = 0 and argumentExpression = 1
        and root = "ex_keyed (Identifier ''key'')"]
  note not_safe = facts [THEN conjunct1]
  note exempt_query = facts [THEN conjunct2, THEN conjunct1, rule_format, OF q]
  have n: "isNumberLiteral numeric_enum_member_type"
    by (simp add: example_defs)
  from not_safe exempt_query n e show ?thesis by simp
qed

text \<open>
  Claim C6 as stated fails: a key of type \<^verbatim>\<open>0 | 1\<close> is numeric, and the oracle exempts
  \<^verbatim>\<open>map[key]\<close> for it on a record; \<^verbatim>\<open>map[key].foo;\<close> is not reported.
\<close>

theorem numeric_union_key_counterexample:
  "numeric_type number_union_type
   \<and> isTypeSafeIndex number_union_type record_type
   \<and> isSafeKeyAccess (ex_keyed (Identifier ''key'')) use_unguarded
        (Some (typed record_type number_union_type))
   \<and> onMemberExpression (ex_keyed (Identifier ''key''))
        (Some (typed record_type number_union_type)) use_unguarded = []"
  by (simp add: example_defs rule_defs)

section \<open>Resolution of a variable through the scope chain\<close>

lemma scanVariables_absent:
  "list_all (\<lambda>v. var_name v \<noteq> name) sc \<Longrightarrow> scanVariables root decls sc name = None"
  by (induction sc) auto

lemma scanVariables_found:
  "find (\<lambda>v. var_name v = name) sc = Some v \<Longrightarrow>
     scanVariables root decls sc name =
       Some (list_ex
               (\<lambda>def_node.
                  case get root def_node of
                    Some (VariableDeclarator ident init) \<Rightarrow> def_node \<in> decls
                  | _ \<Rightarrow> False)
               (var_defs v))"
  by (induction sc) (auto split: if_splits)

lemma walkScopes_skip:
  "list_all (list_all (\<lambda>v. var_name v \<noteq> name)) inner \<Longrightarrow>
     walkScopes root decls (inner @ rest) name = walkScopes root decls rest name"
  by (induction inner) (auto simp: scanVariables_absent)

text \<open>
  The first scope of the chain that declares the name decides, whatever the scopes
  around it declare.
\<close>

lemma isArrayIndexVariable_nearest:
  assumes "get root node = Some (Identifier name)"
    and "getScope node = inner @ scope # outer"
    and "list_all (list_all (\<lambda>v. var_name v \<noteq> name)) inner"
    and "find (\<lambda>v. var_name v = name) scope = Some v"
  shows "isArrayIndexVariable root getScope decls node =
           list_ex
             (\<lambda>def_node.
                case get root def_node of
                  Some (VariableDeclarator ident init) \<Rightarrow> def_node \<in> decls
                | _ \<Rightarrow> False)
             (var_defs v)"
  using assms
  by (simp add: isArrayIndexVariable_def walkScopes_skip scanVariables_found)

text \<open>
  Claim C7. Resolving a use walks the scope chain outward and stops at the first scope
  that declares a variable of the name: the use is bound exactly when a definition of
  that variable is a registered declarator, whatever the scopes inside declare under
  other names and whatever the scopes outside declare. When no definition of that
  variable is registered (a parameter, for one), the use is not bound, and neither the
  handler of a property read off the identifier nor the handler of a call of it
  reports.
\<close>

theorem nearest_declaration_decides:
  assumes "get root node = Some (Identifier name)"
    and "getScope node = inner @ scope # outer"
    and "list_all (list_all (\<lambda>v. var_name v \<noteq> name)) inner"
    and "find (\<lambda>v. var_name v = name) scope = Some v"
  shows "isArrayIndexVariable root getScope decls node
         = list_ex
             (\<lambda>def_node.
                case get root def_node of
                  Some (VariableDeclarator ident init) \<Rightarrow> def_node \<in> decls
                | _ \<Rightarrow> False)
             (var_defs v)
         \<and> (\<not> list_ex
                 (\<lambda>def_node.
                    case get root def_node of
                      Some (VariableDeclarator ident init) \<Rightarrow> def_node \<in> decls
                    | _ \<Rightarrow> False)
                 (var_defs v) \<longrightarrow>
              (F_object # member = node \<longrightarrow>
                 onMemberExpressionOfIdentifier root getScope decls member = [])
              \<and> (F_callee # call = node \<longrightarrow>
                   onCallExpressionOfIdentifier root getScope decls call = []))"
proof -
  note resolved =
    isArrayIndexVariable_nearest [of root node name getScope inner scope outer v decls,
      OF assms]
  have silent:
    "(F_object # member = node \<longrightarrow>
        onMemberExpressionOfIdentifier root getScope decls member = [])
     \<and> (F_callee # call = node \<longrightarrow>
          onCallExpressionOfIdentifier root getScope decls call = [])"
    if unbound: "\<not> isArrayIndexVariable root getScope decls node"
  proof -
    have "onMemberExpressionOfIdentifier root getScope decls member = []"
      if "F_object # member = node"
    proof (rule ccontr)
      assume "onMemberExpressionOfIdentifier root getScope decls member \<noteq> []"
      then obtain d where
        d: "d \<in> set (onMemberExpressionOfIdentifier root getScope decls member)"
        by (cases "onMemberExpressionOfIdentifier root getScope decls member") auto
      from d onMemberExpressionOfIdentifier_not_member [of root member getScope decls]
      obtain name' property computed optional where
        g: "get root member
            = Some (MemberExpression (Identifier name') property computed optional)"
        by fastforce
      from d unbound that show False
        by (simp add: onMemberExpressionOfIdentifier_def g)
    qed
    moreover have "onCallExpressionOfIdentifier root getScope decls call = []"
      if "F_callee # call = node"
    proof (rule ccontr)
      assume "onCallExpressionOfIdentifier root getScope decls call \<noteq> []"
      then obtain d where
        d: "d \<in> set (onCallExpressionOfIdentifier root getScope decls call)"
        by (cases "onCallExpressionOfIdentifier root getScope decls call") auto
      from d onCallExpressionOfIdentifier_not_call [of root call getScope decls]
      obtain name' args optional where
        g: "get root call = Some (CallExpression (Identifier name') args optional)"
        by fastforce
      from d unbound that show False
        by (simp add: onCallExpressionOfIdentifier_def g)
    qed
    ultimately show ?thesis by blast
  qed
  from resolved silent show ?thesis by blast
qed

theorem nearest_declaration_decides_witness:
  "get ex_shadow (F_object # fare_read) = Some (Identifier ''fare'')
   \<and> onVariableDeclarator ex_shadow None {} fare_declarator = {fare_declarator}
   \<and> \<not> isArrayIndexVariable ex_shadow shadow_scopes {fare_declarator} (F_object # fare_read)
   \<and> onMemberExpressionOfIdentifier ex_shadow shadow_scopes {fare_declarator} fare_read = []
   \<and> get ex_closure (F_object # closure_read) = Some (Identifier ''fare'')
   \<and> isArrayIndexVariable ex_closure closure_scopes {fare_declarator}
        (F_object # closure_read)
   \<and> onMemberExpressionOfIdentifier ex_closure closure_scopes {fare_declarator}
        closure_read
      = [Diagnostic (F_object # closure_read) ''issue:unsafe-access'']"
proof -
  have g: "get ex_shadow (F_object # fare_read) = Some (Identifier ''fare'')"
    by (simp add: example_defs rule_defs)
  have s: "shadow_scopes (F_object # fare_read)
      = [] @ [Variable ''arguments'' [], Variable ''fare'' [[F_body 1]]]
        # [[Variable ''fare'' [fare_declarator], Variable ''calcFare'' [[F_body 1]]]]"
    by (simp add: example_defs)
  have i: "list_all (list_all (\<lambda>v. var_name v \<noteq> ''fare'')) []"
    by simp
  have f: "find (\<lambda>v. var_name v = ''fare'')
      [Variable ''arguments'' [], Variable ''fare'' [[F_body 1]]]
      = Some (Variable ''fare'' [[F_body 1]])"
    by simp
  have u: "\<not> list_ex
             (\<lambda>def_node.
                case get ex_shadow def_node of
                  Some (VariableDeclarator ident init) \<Rightarrow> def_node \<in> {fare_declarator}
                | _ \<Rightarrow> False)
             (var_defs (Variable ''fare'' [[F_body 1]]))"
    by (simp add: example_defs rule_defs)
  have r: "onVariableDeclarator ex_shadow None {} fare_declarator = {fare_declarator}"
    by (simp add: example_defs rule_defs)
  note shadowed =
    nearest_declaration_decides [of ex_shadow "F_object # fare_read" "''fare''"
      shadow_scopes "[]" "[Variable ''arguments'' [], Variable ''fare'' [[F_body 1]]]"
      "[[Variable ''fare'' [fare_declarator], Variable ''calcFare'' [[F_body 1]]]]"
      "Variable ''fare'' [[F_body 1]]" "{fare_declarator}" fare_read, OF g s i f]
  from shadowed u have shadow:
    "\<not> isArrayIndexVariable ex_shadow shadow_scopes {fare_declarator} (F_object # fare_read)"
    "onMemberExpressionOfIdentifier ex_shadow shadow_scopes {fare_declarator} fare_read = []"
    by blast+
  have g': "get ex_closure (F_object # closure_read) = Some (Identifier ''fare'')"
    by (simp add: example_defs rule_defs)
  have s': "closure_scopes (F_object # closure_read)
      = [[Variable ''arguments'' []]]
        @ [Variable ''fare'' [fare_declarator], Variable ''calc'' [[F_body 1]]] # []"
    by (simp add: example_defs)
  have i': "list_all (list_all (\<lambda>v. var_name v \<noteq> ''fare'')) [[Variable ''arguments'' []]]"
    by simp
  have f': "find (\<lambda>v. var_name v = ''fare'')
      [Variable ''fare'' [fare_declarator], Variable ''calc'' [[F_body 1]]]
      = Some (Variable ''fare'' [fare_declarator])"
    by simp
  have b: "list_ex
             (\<lambda>def_node.
                case get ex_closure def_node of
                  Some (VariableDeclarator ident init) \<Rightarrow> def_node \<in> {fare_declarator}
                | _ \<Rightarrow> False)
             (var_defs (Variable ''fare'' [fare_declarator]))"
    by (simp add: example_defs rule_defs)
  note enclosed =
    nearest_declaration_decides [of ex_closure "F_object # closure_read" "''fare''"
      closure_scopes "[[Variable ''arguments'' []]]"
      "[Variable ''fare'' [fare_declarator], Variable ''calc'' [[F_body 1]]]" "[]"
      "Variable ''fare'' [fare_declarator]" "{fare_declarator}", OF g' s' i' f',
      THEN conjunct1]
  from enclosed b have bound:
    "isArrayIndexVariable ex_closure closure_scopes {fare_declarator}
       (F_object # closure_read)"
    by simp
  have "get ex_closure closure_read
      = Some (MemberExpression (Identifier ''fare'') (Identifier ''getColumnValue'')
                False False)"
    by (simp add: example_defs rule_defs)
  moreover have "\<not> hasOptionalChaining ex_closure closure_read"
    "\<not> isInsideNullCheckedBlock ex_closure closure_read ''fare''"
    by (simp_all add: example_defs rule_defs)
  ultimately have reported:
    "onMemberExpressionOfIdentifier ex_closure closure_scopes {fare_declarator} closure_read
     = [Diagnostic (F_object # closure_read) ''issue:unsafe-access'']"
    using bound by (simp add: onMemberExpressionOfIdentifier_def)
  from g r shadow g' bound reported show ?thesis by simp
qed

section \<open>Comparisons against null and undefined\<close>



text \<open>
  A regular-expression literal that the runtime cannot compile has the value null and
  counts as the null literal: \<^verbatim>\<open>item == /(?i:a)/\<close> is then a null check of \<^verbatim>\<open>item\<close>.
\<close>

lemma uncompiled_regular_expression_is_null_valued:
  "checksForNullish
     (BinaryExpression ''=='' (Identifier ''item'') (Literal (RegExpLit None))) ''item''
   \<and> \<not> checksForNullish
         (BinaryExpression ''=='' (Identifier ''item'') (Literal (RegExpLit (Some ''/a/''))))
         ''item''"
  by (simp add: rule_defs)







section \<open>The two forms of the nullish check\<close>

text \<open>
  Claim C2 fails on the code. The form keyed by a variable name accepts a negated test
  \<^verbatim>\<open>!item\<close> and a disjunction with a null check on one side; the form keyed by the
  identity of an access accepts neither \<^verbatim>\<open>!arr[0]\<close> nor the disjunction. So
  \<^verbatim>\<open>const item = arr[0]; if (!item) { return; } item.foo;\<close> is not reported, and
  \<^verbatim>\<open>if (!arr[0]) { return; } arr[0].foo;\<close> is.
\<close>

theorem negated_and_disjunctive_tests_differ:
  "getArrayIndexAccessKey arr0 = Some ''arr[0]''
   \<and> checksForNullish (UnaryExpression ''!'' (Identifier ''item'')) ''item''
   \<and> \<not> checksForNullishExpression (UnaryExpression ''!'' arr0) ''arr[0]''
   \<and> checksForNullish
        (LogicalExpression ''||''
           (BinaryExpression ''=='' (Identifier ''item'') (Literal NullLit))
           (Identifier ''flag''))
        ''item''
   \<and> \<not> checksForNullishExpression
          (LogicalExpression ''||'' (BinaryExpression ''=='' arr0 (Literal NullLit))
             (Identifier ''flag''))
          ''arr[0]''
   \<and> onMemberExpressionOfIdentifier ex_negated_exit_variable item_scopes {item_declarator}
        item_read_after_exit = []
   \<and> onMemberExpression ex_negated_exit None use_negated_exit
      = [Diagnostic use_negated_exit ''issue:unsafe-access'']"
  by (simp add: example_defs rule_defs)

section \<open>Loop-bound narrowing\<close>








text \<open>
  The loop tests that \<open>getForLoopArrayInfo\<close> accepts beyond the two shapes of its own
  comment: \<^verbatim>\<open>i <= arr.length\<close> narrows \<^verbatim>\<open>arr[i]\<close>, and so does any subtrahend, as in
  \<^verbatim>\<open>i < arr.length - 0\<close>.
\<close>

lemma other_loop_tests_narrow:
  "\<not> spec_loop_bound (ex_for (le_length (Identifier ''arr'')) (Identifier ''arr'')) use_for
   \<and> isInsideSafeForLoop (ex_for (le_length (Identifier ''arr'')) (Identifier ''arr'')) use_for
   \<and> onMemberExpression (ex_for (le_length (Identifier ''arr'')) (Identifier ''arr'')) None
        use_for = []
   \<and> getForLoopArrayInfo
        (ForStatement None
           (Some (BinaryExpression ''<'' (Identifier ''i'')
                    (BinaryExpression ''-'' (dot (Identifier ''arr'') ''length'')
                       (Literal (NumberLit ''0'')))))
           None (BlockStatement []))
      = Some (''i'', ''arr'')"
  by (simp add: example_defs rule_defs spec_defs)

section \<open>Reports of a direct use\<close>

text \<open>The diagnostics anchored at a member access come from its own visit only.\<close>

lemma reports_at_onMemberExpression:
  "reports_at U (onMemberExpression root services r)
   = (if r = U then onMemberExpression root services U else [])"
proof -
  have anchored: "diag_node d = r" if "d \<in> set (onMemberExpression root services r)" for d
    using onMemberExpression_subset [OF that] by simp
  show ?thesis
  proof (cases "r = U")
    case True
    with anchored show ?thesis by (simp add: reports_at_def filter_id_conv)
  next
    case False
    with anchored show ?thesis by (auto simp: reports_at_def filter_empty_conv)
  qed
qed

lemma reports_at_onMemberExpressionOfIdentifier:
  assumes "get root U = Some (MemberExpression obj property computed optional)"
  shows "reports_at U (onMemberExpressionOfIdentifier root getScope decls r) = []"
proof -
  have "diag_node d \<noteq> U"
    if "d \<in> set (onMemberExpressionOfIdentifier root getScope decls r)" for d
    using onMemberExpressionOfIdentifier_subset [OF that] assms by auto
  then show ?thesis by (auto simp: reports_at_def filter_empty_conv)
qed

lemma reports_at_onCallExpressionOfIdentifier:
  assumes "get root U = Some (MemberExpression obj property computed optional)"
  shows "reports_at U (onCallExpressionOfIdentifier root getScope decls r) = []"
proof -
  have "diag_node d \<noteq> U"
    if "d \<in> set (onCallExpressionOfIdentifier root getScope decls r)" for d
    using onCallExpressionOfIdentifier_subset [OF that] assms by auto
  then show ?thesis by (auto simp: reports_at_def filter_empty_conv)
qed

lemma reports_at_append [simp]: "reports_at U (xs @ ys) = reports_at U xs @ reports_at U ys"
  by (simp add: reports_at_def)

lemma reports_at_visit:
  assumes "get root U = Some (MemberExpression obj property computed optional)"
  shows "reports_at U (reports (visit root services getScope st r))
         = reports_at U (reports st)
           @ (if r = U then onMemberExpression root services U else [])"
proof (cases rule: visit_cases [of root r services getScope st])
  case (declarator ident init)
  with assms have "r \<noteq> U" by auto
  with declarator show ?thesis by simp
next
  case (member obj' property' computed' optional')
  with reports_at_onMemberExpression [of U root services r]
    reports_at_onMemberExpressionOfIdentifier [OF assms, of getScope "arrayIndexDeclarations st" r]
  show ?thesis by simp
next
  case (call callee args optional')
  with assms have "r \<noteq> U" by auto
  with call reports_at_onCallExpressionOfIdentifier [OF assms, of getScope "arrayIndexDeclarations st" r]
  show ?thesis by simp
next
  case other
  show ?thesis
  proof (cases "r = U")
    case True
    with other assms have "visit root services getScope st U = st" by simp
    moreover from assms have "visit root services getScope st U
        = st\<lparr>reports :=
              reports st @ onMemberExpression root services U
              @ onMemberExpressionOfIdentifier root getScope (arrayIndexDeclarations st) U\<rparr>"
      by (simp add: visit_def)
    ultimately have "reports st = reports st @ onMemberExpression root services U
        @ onMemberExpressionOfIdentifier root getScope (arrayIndexDeclarations st) U"
      by (metis (no_types) analysis_state.select_convs(2) analysis_state.surjective
          analysis_state.update_convs(2))
    then have "onMemberExpression root services U = []" by simp
    with True other show ?thesis by simp
  next
    case False
    with other show ?thesis by simp
  qed
qed

lemma reports_at_run:
  assumes "get root U = Some (MemberExpression obj property computed optional)"
  shows "reports_at U (reports (foldl (visit root services getScope) st order))
         = reports_at U (reports st)
           @ concat (replicate (count_list order U) (onMemberExpression root services U))"
proof (induction order arbitrary: st)
  case Nil
  then show ?case by simp
next
  case (Cons r order)
  show ?case
    by (simp add: Cons.IH reports_at_visit [OF assms])
qed

text \<open>A direct use with no guard of the handler is reported by the handler.\<close>

lemma onMemberExpression_unguarded:
  assumes U: "get root U = Some (MemberExpression obj property computed optional)"
    and dynamic: "isArrayIndexAccess (MemberExpression obj property computed optional)"
    and use: "is_direct_use root U"
    and not_exempt: "\<not> isSafeKeyAccess root U services"
    and no_loop: "\<not> isInsideSafeForLoop root U"
    and no_keyed_guard:
      "\<not> (truthy (getArrayIndexAccessKey (MemberExpression obj property computed optional))
          \<and> isInsideNullCheckedBlockExpression root U
               (the (getArrayIndexAccessKey
                       (MemberExpression obj property computed optional))))"
    and no_chain: "\<not> spec_optional_chaining root U"
    and no_check: "\<not> isInsideNullCheck root U"
  shows "onMemberExpression root services U = [Diagnostic U ''issue:unsafe-access'']"
proof -
  from use obtain f p where p: "U = f # p"
    by (cases U) (simp_all add: is_direct_use_def parent_of_def)
  from use p consider
    (read) obj' property' computed' optional' where
      "get root p = Some (MemberExpression obj' property' computed' optional')" "f = F_object"
    | (call) callee args optional' where
      "get root p = Some (CallExpression callee args optional')" "f = F_callee"
    by (cases "get root p"; cases "the (get root p)")
       (simp_all add: is_direct_use_def parent_of_def)
  then show ?thesis
  proof cases
    case read
    with p have no_name: "\<not> truthy (getArrayIndexVariableName root U)"
      by (simp add: getArrayIndexVariableName_def parent_of_def truthy_def)
    from read p no_chain have "\<not> hasOptionalChaining root p"
      by (auto simp: spec_optional_chaining_def hasOptionalChaining_def parent_of_def
          list_ex_iff)
    with read p no_check have "isUnsafePropertyAccess root U (parent_of U)"
      by (simp add: isUnsafePropertyAccess_def parent_of_def)
    with U dynamic no_name not_exempt no_loop no_keyed_guard show ?thesis
      by (simp add: onMemberExpression_def Let_def del: getArrayIndexAccessKey.simps)
  next
    case call
    with p have no_name: "\<not> truthy (getArrayIndexVariableName root U)"
      by (simp add: getArrayIndexVariableName_def parent_of_def truthy_def)
    from U no_chain have "\<not> hasOptionalChaining root U"
      by (auto simp: spec_optional_chaining_def hasOptionalChaining_def)
    with call p no_check have "isUnsafeFunctionCall root U (parent_of U)"
      by (simp add: isUnsafeFunctionCall_def parent_of_def)
    with U dynamic no_name not_exempt no_loop no_keyed_guard show ?thesis
      by (simp add: onMemberExpression_def Let_def del: getArrayIndexAccessKey.simps)
  qed
qed

section \<open>Completeness of reporting\<close>

text \<open>
  A dynamic-key access with a property read directly off it, or called directly, is
  reported exactly once by a run that visits it once, when the oracle does not exempt
  it, the loop-bound check does not cover it, no guard keyed by its access identity
  holds, it has no optional chaining and \<open>isInsideNullCheck\<close> finds nothing around it.
\<close>

lemma direct_use_outside_checks_is_reported_once:
  assumes "get root U = Some (MemberExpression obj property computed optional)"
    and "isArrayIndexAccess (MemberExpression obj property computed optional)"
    and "is_direct_use root U"
    and "\<not> isSafeKeyAccess root U (create_services ps)"
    and "\<not> isInsideSafeForLoop root U"
    and "\<not> (truthy (getArrayIndexAccessKey (MemberExpression obj property computed optional))
          \<and> isInsideNullCheckedBlockExpression root U
               (the (getArrayIndexAccessKey
                       (MemberExpression obj property computed optional))))"
    and "\<not> spec_optional_chaining root U"
    and "\<not> isInsideNullCheck root U"
    and "count_list order U = 1"
  shows "reports_at U (analyse root ps getScope order)
         = [Diagnostic U ''issue:unsafe-access'']"
proof -
  from onMemberExpression_unguarded [OF assms(1-8)]
  have "onMemberExpression root (create_services ps) U = [Diagnostic U ''issue:unsafe-access'']" .
  with assms(9) reports_at_run [OF assms(1), of "create_services ps" getScope
      "\<lparr>arrayIndexDeclarations = {}, reports = []\<rparr>" order]
  show ?thesis by (simp add: analyse_def run_def reports_at_def)
qed

lemma direct_use_outside_checks_is_reported_once_example:
  "get ex_unguarded use_unguarded = Some arr0
   \<and> is_direct_use ex_unguarded use_unguarded
   \<and> count_list order_unguarded use_unguarded = 1
   \<and> reports_at use_unguarded (analyse ex_unguarded (Inl Thrown) (\<lambda>r. []) order_unguarded)
      = [Diagnostic use_unguarded ''issue:unsafe-access'']"
proof -
  have g: "get ex_unguarded use_unguarded
      = Some (MemberExpression (Identifier ''arr'') (Literal (NumberLit ''0'')) True False)"
    by (simp add: example_defs rule_defs)
  have d: "isArrayIndexAccess
      (MemberExpression (Identifier ''arr'') (Literal (NumberLit ''0'')) True False)"
    by (simp add: rule_defs)
  have u: "is_direct_use ex_unguarded use_unguarded"
    by (simp add: example_defs rule_defs spec_defs)
  have e: "\<not> isSafeKeyAccess ex_unguarded use_unguarded (create_services (Inl Thrown))"
    by (simp add: rule_defs)
  have l: "\<not> isInsideSafeForLoop ex_unguarded use_unguarded"
    by (simp add: example_defs rule_defs)
  have k: "\<not> (truthy (getArrayIndexAccessKey
                       (MemberExpression (Identifier ''arr'') (Literal (NumberLit ''0'')) True False))
          \<and> isInsideNullCheckedBlockExpression ex_unguarded use_unguarded
               (the (getArrayIndexAccessKey
                       (MemberExpression (Identifier ''arr'') (Literal (NumberLit ''0'')) True
                          False))))"
    by (simp add: example_defs rule_defs)
  have c: "\<not> spec_optional_chaining ex_unguarded use_unguarded"
    by (simp add: example_defs rule_defs spec_defs)
  have n: "\<not> isInsideNullCheck ex_unguarded use_unguarded"
    by (simp add: example_defs rule_defs)
  have o: "count_list order_unguarded use_unguarded = 1"
    by (simp add: example_defs)
  from direct_use_outside_checks_is_reported_once [OF g d u e l k c n o, of "\<lambda>r. []"] g u o
  show ?thesis by (simp add: arr0_def)
qed

text \<open>
  Claim C1 says that a dynamic-key access with a property read directly off it, to which
  none of the guards of section 4.4 applies, gets exactly one diagnostic. The code does
  otherwise: in \<^verbatim>\<open>if (flag) { arr[0].foo; }\<close> no guard of section 4.4 applies to
  \<^verbatim>\<open>arr[0]\<close> (the test of the conditional is no nullish check of it) and the analysis
  produces no diagnostic, because \<open>checkNodeSafety\<close> accepts an enclosing \<^verbatim>\<open>if\<close>
  statement without looking at its test. The handler of variables looks at the test:
  the same program written with a variable,
  \<^verbatim>\<open>const item = arr[0]; if (flag) { item.foo; }\<close>, is reported.
\<close>

theorem enclosing_if_suppresses_report:
  "get (ex_if (Identifier ''flag'')) use_if = Some arr0
   \<and> isArrayIndexAccess arr0
   \<and> is_direct_use (ex_if (Identifier ''flag'')) use_if
   \<and> \<not> spec_guard_applies (ex_if (Identifier ''flag'')) use_if
   \<and> count_list order_if_flag use_if = 1
   \<and> analyse (ex_if (Identifier ''flag'')) (Inl Thrown) (\<lambda>r. []) order_if_flag = []
   \<and> onMemberExpressionOfIdentifier (ex_if_variable (Identifier ''flag'')) item_scopes
        {item_declarator} item_read
      = [Diagnostic (F_object # item_read) ''issue:unsafe-access'']"
  by (simp add: example_defs rule_defs spec_defs)

text \<open>
  \<open>checkNodeSafety\<close> looks no closer at logical expressions: \<^verbatim>\<open>flag && arr[0].foo;\<close>
  and \<^verbatim>\<open>x ?? arr[0].foo;\<close> are not reported either, though the left operand of the
  first is not the access and the access is in the right operand of the second.
\<close>

lemma enclosing_logical_expression_suppresses_report:
  "\<not> spec_guard_applies
       (Program
          [ExpressionStatement
             (LogicalExpression ''&&'' (Identifier ''flag'') (dot arr0 ''foo''))])
       [F_object, F_right, F_expression, F_body 0]
   \<and> onMemberExpression
       (Program
          [ExpressionStatement
             (LogicalExpression ''&&'' (Identifier ''flag'') (dot arr0 ''foo''))])
       None [F_object, F_right, F_expression, F_body 0] = []
   \<and> \<not> spec_guard_applies
         (Program
            [ExpressionStatement
               (LogicalExpression ''??'' (Identifier ''x'') (dot arr0 ''foo''))])
         [F_object, F_right, F_expression, F_body 0]
   \<and> onMemberExpression
       (Program
          [ExpressionStatement
             (LogicalExpression ''??'' (Identifier ''x'') (dot arr0 ''foo''))])
       None [F_object, F_right, F_expression, F_body 0] = []"
  by (simp add: example_defs rule_defs spec_defs)

section \<open>Scenarios of the specification\<close>

text \<open>
  The concrete scenarios of section 8, on the handlers. Scenario 2:
  \<^verbatim>\<open>if (arr[0]) { arr[0].toString(); }\<close> gives no diagnostic. Scenario 3:
  \<^verbatim>\<open>if (arr[0]) { } arr[0].toString();\<close> gives one.
\<close>

lemma scenario_guarded_block:
  "onMemberExpression
     (Program
        [IfStatement arr0
           (BlockStatement
              [ExpressionStatement (CallExpression (dot arr0 ''toString'') [] False)])
           None])
     None [F_object, F_callee, F_expression, F_body 0, F_consequent, F_body 0] = []
   \<and> onMemberExpression
       (Program
          [IfStatement arr0 (BlockStatement []) None,
           ExpressionStatement (CallExpression (dot arr0 ''toString'') [] False)])
       None [F_object, F_callee, F_expression, F_body 1]
     = [Diagnostic [F_object, F_callee, F_expression, F_body 1] ''issue:unsafe-access'']"
  by (simp add: example_defs rule_defs)

text \<open>
  Scenario 4: \<^verbatim>\<open>const p = ports[0]; if (p == null) { throw e; } p.id = 123;\<close> gives no
  diagnostic.
\<close>

lemma scenario_early_exit:
  "onMemberExpressionOfIdentifier
     (Program
        [VariableDeclaration
           [VariableDeclarator (Identifier ''p'')
              (Some (index (Identifier ''ports'') (Literal (NumberLit ''0''))))],
         IfStatement (BinaryExpression ''=='' (Identifier ''p'') (Literal NullLit))
           (BlockStatement [ThrowStatement (Identifier ''e'')]) None,
         ExpressionStatement
           (AssignmentExpression ''='' (dot (Identifier ''p'') ''id'')
              (Literal (NumberLit ''123'')))])
     (\<lambda>r. [[Variable ''p'' [[F_declarations 0, F_body 0]]]])
     {[F_declarations 0, F_body 0]} [F_left, F_expression, F_body 2] = []"
  by (simp add: example_defs rule_defs)

text \<open>
  Scenario 5: \<^verbatim>\<open>const v = m[0][0].toString();\<close> gives two diagnostics, one for each
  level.
\<close>

lemma scenario_nested_access:
  "analyse
     (Program
        [VariableDeclaration
           [VariableDeclarator (Identifier ''v'')
              (Some (CallExpression
                       (dot (index (index (Identifier ''m'') (Literal (NumberLit ''0'')))
                               (Literal (NumberLit ''0'')))
                          ''toString'')
                       [] False))]])
     (Inl Thrown) (\<lambda>r. [])
     [[F_declarations 0, F_body 0],
      [F_init, F_declarations 0, F_body 0],
      [F_callee, F_init, F_declarations 0, F_body 0],
      [F_object, F_callee, F_init, F_declarations 0, F_body 0],
      [F_object, F_object, F_callee, F_init, F_declarations 0, F_body 0]]
   = [Diagnostic [F_object, F_callee, F_init, F_declarations 0, F_body 0]
        ''issue:unsafe-access'',
      Diagnostic [F_object, F_object, F_callee, F_init, F_declarations 0, F_body 0]
        ''issue:unsafe-access'']"
  by (simp add: example_defs rule_defs)

end
